theory Spec2Isabelle
  imports Complex_Main
begin

section \<open>The daily Wheelhouse ETL (\<^verbatim>\<open>src/srg_rm_copilot/etl.py\<close>)\<close>

subsection \<open>Decoded JSON values\<close>

text \<open>
  What \<^verbatim>\<open>response.json()\<close> returns. A Python \<^verbatim>\<open>dict\<close> keeps its keys in insertion
  order, so an object is an association list; a decoded object has pairwise distinct
  keys, all of them strings. A \<^verbatim>\<open>float\<close> is carried as its \<^verbatim>\<open>repr\<close> text, the only
  thing the program ever does with one. Strings are lists of code points below 256.
\<close>

datatype json =
    JNull
  | JBool bool
  | JInt int
  | JFloat string
  | JStr string
  | JList "json list"
  | JDict "(string \<times> json) list"

subsection \<open>The world the program acts on\<close>

record request =
  url :: string
  headers :: "(string \<times> string) list"
  params :: "(string \<times> string) list option"

record response =
  status_code :: int
  json_body :: "json option"

text \<open>
  \<^verbatim>\<open>client.get\<close> either raises a transport error (connection, timeout) or returns a
  response. \<open>json_body\<close> is \<open>None\<close> when the body does not decode, so that
  \<^verbatim>\<open>response.json()\<close> raises.
\<close>

datatype http_result = TransportError | Response response

text \<open>
  The upstream API answers the \<open>n\<close>-th request of the run (counted from 0) as a function
  of \<open>n\<close> and of the request.
\<close>

type_synonym server = "nat \<Rightarrow> request \<Rightarrow> http_result"

datatype error =
    HTTPStatusError int
  | HTTPTransportError
  | JSONDecodeError
  | ValueError
  | OverflowError
  | FileExistsError
  | OSError
  | BadParameter string
  | Exit int

text \<open>
  The calls into pandas and the file system that lines 162 to 168 make. Whether such a
  call succeeds is not for the program to decide: a directory cannot be created where a
  file is, a name can be too long, a frame can have columns that do not fit the format.
\<close>

datatype lib_call =
    DataFrame "json list"
  | Makedirs string
  | ToParquet string "json list"

text \<open>
  \<open>reqs\<close> logs every request issued, \<open>sleeps\<close> every delay slept, \<open>out\<close> and \<open>err\<close>
  the lines echoed to standard output and standard error, \<open>lib_calls\<close> every call into
  pandas and the file system. \<open>lib_outcome w n c\<close> is what the platform answers when the
  \<open>n\<close>-th such call of the run (counted from 0) is \<open>c\<close>: \<open>None\<close> when it succeeds, the
  exception it raises otherwise. \<open>fs\<close> keeps, for each path as the program spelt it, the
  rows of the frame last written through it with success; it is a record of the writes,
  not the content of the disk, where two spellings can name one file.
\<close>

record world =
  reqs :: "request list"
  sleeps :: "real list"
  out :: "string list"
  err :: "string list"
  fs :: "string \<rightharpoonup> json list"
  lib_calls :: "lib_call list"
  lib_outcome :: "nat \<Rightarrow> lib_call \<Rightarrow> error option"

subsection \<open>The retrying fetcher \<^verbatim>\<open>_get_with_retry\<close>\<close>

text \<open>
  \<^verbatim>\<open>response.raise_for_status()\<close> of httpx: a 2xx status passes, every other status
  raises \<^verbatim>\<open>HTTPStatusError\<close> for that response.
\<close>

definition raise_for_status :: "response \<Rightarrow> error + unit" where
  "raise_for_status r =
     (if 200 \<le> status_code r \<and> status_code r \<le> 299 then Inr ()
      else Inl (HTTPStatusError (status_code r)))"

text \<open>
  Line 60, \<^verbatim>\<open>(2 ** attempt) * backoff_factor\<close>, with \<^verbatim>\<open>backoff_factor\<close> a finite float. The
  integer power is converted to a float for the product, which raises \<^verbatim>\<open>OverflowError\<close>
  from \<^verbatim>\<open>2 ** 1024\<close> on. Below that the scaling by a power of two is exact, unless the
  product leaves the range of floats; it is then infinite, which \<^verbatim>\<open>time.sleep\<close> refuses
  as it refuses every delay beyond \<open>sleep_max\<close>.
\<close>

definition backoff_delay :: "nat \<Rightarrow> real \<Rightarrow> error + real" where
  "backoff_delay attempt backoff_factor =
     (if 1024 \<le> attempt then Inl OverflowError else Inr (2 ^ attempt * backoff_factor))"

text \<open>
  \<^verbatim>\<open>time.sleep(delay)\<close> keeps the delay as a signed 64-bit count of nanoseconds: it raises
  \<^verbatim>\<open>ValueError\<close> on a negative delay and \<^verbatim>\<open>OverflowError\<close> on one that does not fit.
\<close>

definition sleep_max :: real where
  "sleep_max = 2 ^ 63 / 10 ^ 9"

definition sleep :: "real \<Rightarrow> world \<Rightarrow> error + world" where
  "sleep delay w =
     (if delay < 0 then Inl ValueError
      else if sleep_max \<le> delay then Inl OverflowError
      else Inr (w\<lparr>sleeps := sleeps w @ [delay]\<rparr>))"

text \<open>Lines 60 and 61 together.\<close>

definition backoff_sleep :: "nat \<Rightarrow> real \<Rightarrow> world \<Rightarrow> error + world" where
  "backoff_sleep attempt backoff_factor w =
     (case backoff_delay attempt backoff_factor of
        Inl e \<Rightarrow> Inl e
      | Inr delay \<Rightarrow> sleep delay w)"

text \<open>The delay of the retry after attempt index \<open>attempt\<close> is one that can be slept.\<close>

definition can_sleep :: "nat \<Rightarrow> real \<Rightarrow> bool" where
  "can_sleep attempt backoff_factor =
     (attempt < 1024 \<and> 0 \<le> 2 ^ attempt * backoff_factor
      \<and> 2 ^ attempt * backoff_factor < sleep_max)"

definition client_get :: "server \<Rightarrow> request \<Rightarrow> world \<Rightarrow> http_result \<times> world" where
  "client_get srv rq w = (srv (length (reqs w)) rq, w\<lparr>reqs := reqs w @ [rq]\<rparr>)"

text \<open>
  The \<^verbatim>\<open>while True\<close> loop of lines 55 to 66, entered with the current value of
  \<^verbatim>\<open>attempt\<close>.
\<close>

function get_loop ::
  "server \<Rightarrow> request \<Rightarrow> int \<Rightarrow> real \<Rightarrow> nat \<Rightarrow> world \<Rightarrow> (error + json) \<times> world" where
  "get_loop srv rq max_retries backoff_factor attempt w =
     (case client_get srv rq w of
        (TransportError, w1) \<Rightarrow> (Inl HTTPTransportError, w1)
      | (Response r, w1) \<Rightarrow>
          if status_code r = 429 \<and> int attempt < max_retries - 1 then
            (case backoff_sleep attempt backoff_factor w1 of
               Inl e \<Rightarrow> (Inl e, w1)
             | Inr w2 \<Rightarrow> get_loop srv rq max_retries backoff_factor (attempt + 1) w2)
          else
            (case raise_for_status r of
               Inl e \<Rightarrow> (Inl e, w1)
             | Inr _ \<Rightarrow>
                 (case json_body r of
                    None \<Rightarrow> (Inl JSONDecodeError, w1)
                  | Some j \<Rightarrow> (Inr j, w1))))"
  by pat_completeness auto
termination
  by (relation "measure (\<lambda>(srv, rq, max_retries, backoff_factor, attempt, w).
        nat (max_retries - 1 - int attempt))") auto

declare get_loop.simps [simp del]

text \<open>
  The request of one call: \<^verbatim>\<open>headers or {}\<close> sends no header both for \<^verbatim>\<open>None\<close> and
  for an empty dictionary.
\<close>

definition the_request ::
  "string \<Rightarrow> (string \<times> string) list option \<Rightarrow> (string \<times> string) list option \<Rightarrow> request" where
  "the_request u hdrs ps =
     \<lparr>url = u, headers = (case hdrs of None \<Rightarrow> [] | Some h \<Rightarrow> h), params = ps\<rparr>"

definition get_with_retry ::
  "server \<Rightarrow> string \<Rightarrow> (string \<times> string) list option \<Rightarrow> (string \<times> string) list option
     \<Rightarrow> int \<Rightarrow> real \<Rightarrow> world \<Rightarrow> (error + json) \<times> world" where
  "get_with_retry srv u hdrs ps max_retries backoff_factor w =
     get_loop srv (the_request u hdrs ps) max_retries backoff_factor 0 w"

subsection \<open>Python's \<^verbatim>\<open>str\<close> and \<^verbatim>\<open>repr\<close> on decoded JSON\<close>

definition digit_char :: "nat \<Rightarrow> char" where
  "digit_char n = ''0123456789'' ! n"

fun str_nat :: "nat \<Rightarrow> string" where
  "str_nat n = (if n < 10 then [digit_char n] else str_nat (n div 10) @ [digit_char (n mod 10)])"

declare str_nat.simps [simp del]

definition str_int :: "int \<Rightarrow> string" where
  "str_int i = (if i < 0 then CHR ''-'' # str_nat (nat (- i)) else str_nat (nat i))"

definition hex_char :: "nat \<Rightarrow> char" where
  "hex_char n = ''0123456789abcdef'' ! n"

text \<open>\<^verbatim>\<open>str.isprintable\<close> on a code point below 256.\<close>

definition is_printable :: "char \<Rightarrow> bool" where
  "is_printable c =
     (let n = (of_char c :: nat) in (32 \<le> n \<and> n \<le> 126) \<or> (161 \<le> n \<and> n \<noteq> 173))"

text \<open>One character of \<^verbatim>\<open>repr\<close> of a string delimited by the quote \<open>q\<close>.\<close>

definition repr_char :: "char \<Rightarrow> char \<Rightarrow> string" where
  "repr_char q c =
     (if c = q \<or> c = CHR 0x5C then [CHR 0x5C, c]
      else if c = CHR 0x09 then [CHR 0x5C, CHR ''t'']
      else if c = CHR 0x0A then [CHR 0x5C, CHR ''n'']
      else if c = CHR 0x0D then [CHR 0x5C, CHR ''r'']
      else if is_printable c then [c]
      else [CHR 0x5C, CHR ''x'', hex_char ((of_char c :: nat) div 16),
            hex_char ((of_char c :: nat) mod 16)])"

text \<open>
  \<^verbatim>\<open>repr\<close> of a string: double quotes when the string holds a single quote and no double
  quote, single quotes otherwise.
\<close>

definition repr_str :: "string \<Rightarrow> string" where
  "repr_str s =
     (let q = (if CHR 0x27 \<in> set s \<and> CHR 0x22 \<notin> set s then CHR 0x22 else CHR 0x27)
      in q # concat (map (repr_char q) s) @ [q])"

fun join_comma :: "string list \<Rightarrow> string" where
  "join_comma [] = []"
| "join_comma [x] = x"
| "join_comma (x # y # ys) = x @ '', '' @ join_comma (y # ys)"

primrec py_repr :: "json \<Rightarrow> string" where
  "py_repr JNull = ''None''"
| "py_repr (JBool b) = (if b then ''True'' else ''False'')"
| "py_repr (JInt i) = str_int i"
| "py_repr (JFloat f) = f"
| "py_repr (JStr s) = repr_str s"
| "py_repr (JList xs) = ''['' @ join_comma (map py_repr xs) @ '']''"
| "py_repr (JDict kvs) =
     ''{'' @ join_comma (map (\<lambda>(k, v). repr_str k @ '': '' @ v) (map (map_prod id py_repr) kvs))
       @ ''}''"

definition py_str :: "json \<Rightarrow> string" where
  "py_str j = (case j of JStr s \<Rightarrow> s | _ \<Rightarrow> py_repr j)"

subsection \<open>The listing-ID normalizer \<^verbatim>\<open>_extract_listing_ids\<close>\<close>

text \<open>
  The \<^verbatim>\<open>for\<close> loop of lines 85 to 89, appending to \<open>ids\<close>. The test
  \<^verbatim>\<open>isinstance(item, dict) and "id" in item\<close> followed by \<^verbatim>\<open>item["id"]\<close> is the lookup
  of the key in the object.
\<close>

fun ids_for_loop :: "json list \<Rightarrow> string list \<Rightarrow> string list" where
  "ids_for_loop [] ids = ids"
| "ids_for_loop (item # items) ids =
     ids_for_loop items
       (case item of
          JDict d \<Rightarrow>
            (case map_of d ''id'' of
               Some v \<Rightarrow> ids @ [py_str v]
             | None \<Rightarrow> ids @ [py_str item])
        | _ \<Rightarrow> ids @ [py_str item])"

text \<open>
  Lines 83 to 101. \<^verbatim>\<open>ids.extend\<close> of a generator appends its values in order; the keys
  of a decoded object are strings, which \<^verbatim>\<open>str\<close> returns unchanged.
\<close>

definition extract_listing_ids :: "json \<Rightarrow> string list" where
  "extract_listing_ids listings_json =
     (case listings_json of
        JList items \<Rightarrow> ids_for_loop items []
      | JDict d \<Rightarrow>
          (case map_of d ''results'' of
             Some (JList results) \<Rightarrow>
               [] @ map (\<lambda>item.
                   case item of
                     JDict e \<Rightarrow> (case map_of e ''id'' of Some v \<Rightarrow> py_str v | None \<Rightarrow> py_str item)
                   | _ \<Rightarrow> py_str item) results
           | _ \<Rightarrow> [] @ map (\<lambda>k. k) (map fst d))
      | _ \<Rightarrow> [])"

text \<open>
  The normalizer as section 4.2 of the specification words it: the element rule
  (a mapping with an \<^verbatim>\<open>id\<close> field gives that field's value, stringified; anything else
  is stringified whole), and the five payload shapes.
\<close>

definition is_mapping :: "json \<Rightarrow> bool" where
  "is_mapping j = (case j of JDict _ \<Rightarrow> True | _ \<Rightarrow> False)"

definition is_sequence :: "json \<Rightarrow> bool" where
  "is_sequence j = (case j of JList _ \<Rightarrow> True | _ \<Rightarrow> False)"

text \<open>The field \<open>k\<close> of a mapping when the mapping has it and it is a sequence.\<close>

definition sequence_field :: "(string \<times> json) list \<Rightarrow> string \<Rightarrow> json list option" where
  "sequence_field d k = (case map_of d k of Some (JList xs) \<Rightarrow> Some xs | _ \<Rightarrow> None)"

definition spec_element_id :: "json \<Rightarrow> string" where
  "spec_element_id item =
     (case item of
        JDict d \<Rightarrow> (if ''id'' \<in> fst ` set d then py_str (the (map_of d ''id'')) else py_str item)
      | _ \<Rightarrow> py_str item)"

definition spec_extract_listing_ids :: "json \<Rightarrow> string list" where
  "spec_extract_listing_ids payload =
     (case payload of
        JList items \<Rightarrow> map spec_element_id items
      | JDict d \<Rightarrow>
          (case sequence_field d ''results'' of
             Some results \<Rightarrow> map spec_element_id results
           | None \<Rightarrow> map fst d)
      | _ \<Rightarrow> [])"

subsection \<open>The metrics-record normalizer (lines 147 to 160 of \<^verbatim>\<open>etl\<close>)\<close>

definition extract_records :: "json \<Rightarrow> json list" where
  "extract_records metrics_json =
     (case metrics_json of
        JNull \<Rightarrow> []
      | JList records \<Rightarrow> records
      | JDict d \<Rightarrow>
          (case map_of d ''data'' of
             Some (JList records) \<Rightarrow> records
           | _ \<Rightarrow>
               (case map_of d ''results'' of
                  Some (JList records) \<Rightarrow> records
                | _ \<Rightarrow> [metrics_json]))
      | _ \<Rightarrow> [])"

text \<open>The normalizer as section 4.3 of the specification words it.\<close>

definition spec_extract_records :: "json \<Rightarrow> json list" where
  "spec_extract_records payload =
     (if payload = JNull then []
      else if is_sequence payload then (case payload of JList xs \<Rightarrow> xs | _ \<Rightarrow> [])
      else if is_mapping payload then
        (case payload of
           JDict d \<Rightarrow>
             (case sequence_field d ''data'' of
                Some xs \<Rightarrow> xs
              | None \<Rightarrow>
                  (case sequence_field d ''results'' of
                     Some ys \<Rightarrow> ys
                   | None \<Rightarrow> [payload]))
         | _ \<Rightarrow> [])
      else [])"

subsection \<open>Calendar dates\<close>

record date =
  year :: nat
  month :: nat
  day :: nat

definition is_leap :: "nat \<Rightarrow> bool" where
  "is_leap y = (y mod 4 = 0 \<and> (y mod 100 \<noteq> 0 \<or> y mod 400 = 0))"

definition days_in_month :: "nat \<Rightarrow> nat \<Rightarrow> nat" where
  "days_in_month y m =
     (if m = 2 then (if is_leap y then 29 else 28)
      else if m = 4 \<or> m = 6 \<or> m = 9 \<or> m = 11 then 30 else 31)"

text \<open>The range check of the \<^verbatim>\<open>datetime.date\<close> constructor.\<close>

definition valid_date :: "nat \<Rightarrow> nat \<Rightarrow> nat \<Rightarrow> bool" where
  "valid_date y m d =
     (1 \<le> y \<and> y \<le> 9999 \<and> 1 \<le> m \<and> m \<le> 12 \<and> 1 \<le> d \<and> d \<le> days_in_month y m)"

definition zfill :: "nat \<Rightarrow> string \<Rightarrow> string" where
  "zfill n s = replicate (n - length s) CHR ''0'' @ s"

text \<open>\<^verbatim>\<open>str(target_date)\<close>, the ISO format \<^verbatim>\<open>%04d-%02d-%02d\<close>.\<close>

definition date_str :: "date \<Rightarrow> string" where
  "date_str d =
     zfill 4 (str_nat (year d)) @ ''-'' @ zfill 2 (str_nat (month d)) @ ''-''
       @ zfill 2 (str_nat (day d))"

definition is_digit :: "char \<Rightarrow> bool" where
  "is_digit c = (let n = (of_char c :: nat) in 48 \<le> n \<and> n \<le> 57)"

definition digit_val :: "char \<Rightarrow> nat" where
  "digit_val c = (of_char c :: nat) - 48"

text \<open>
  \<^verbatim>\<open>%m\<close> of \<^verbatim>\<open>strptime\<close> is the pattern \<^verbatim>\<open>1[0-2]|0[1-9]|[1-9]\<close>, \<^verbatim>\<open>%d\<close> the pattern
  \<^verbatim>\<open>3[0-1]|[1-2]\d|0[1-9]|[1-9]| [1-9]\<close>; the first alternative that matches is taken.
  Each returns the number read and the rest of the text.
\<close>

fun match_month :: "string \<Rightarrow> (nat \<times> string) option" where
  "match_month (a # b # rest) =
     (if a = CHR ''1'' \<and> (b = CHR ''0'' \<or> b = CHR ''1'' \<or> b = CHR ''2'')
        then Some (10 + digit_val b, rest)
      else if a = CHR ''0'' \<and> is_digit b \<and> b \<noteq> CHR ''0'' then Some (digit_val b, rest)
      else if is_digit a \<and> a \<noteq> CHR ''0'' then Some (digit_val a, b # rest)
      else None)"
| "match_month [a] = (if is_digit a \<and> a \<noteq> CHR ''0'' then Some (digit_val a, []) else None)"
| "match_month [] = None"

fun match_day :: "string \<Rightarrow> (nat \<times> string) option" where
  "match_day (a # b # rest) =
     (if a = CHR ''3'' \<and> (b = CHR ''0'' \<or> b = CHR ''1'') then Some (30 + digit_val b, rest)
      else if (a = CHR ''1'' \<or> a = CHR ''2'') \<and> is_digit b
        then Some (10 * digit_val a + digit_val b, rest)
      else if a = CHR ''0'' \<and> is_digit b \<and> b \<noteq> CHR ''0'' then Some (digit_val b, rest)
      else if is_digit a \<and> a \<noteq> CHR ''0'' then Some (digit_val a, b # rest)
      else if a = CHR '' '' \<and> is_digit b \<and> b \<noteq> CHR ''0'' then Some (digit_val b, rest)
      else None)"
| "match_day [a] = (if is_digit a \<and> a \<noteq> CHR ''0'' then Some (digit_val a, []) else None)"
| "match_day [] = None"

text \<open>
  \<^verbatim>\<open>datetime.strptime(date, "%Y-%m-%d").date()\<close>; \<open>None\<close> is its \<^verbatim>\<open>ValueError\<close>: the text
  does not match, text remains after the day, or the numbers are no calendar date.
\<close>

fun strptime :: "string \<Rightarrow> date option" where
  "strptime (y1 # y2 # y3 # y4 # sep1 # rest) =
     (if is_digit y1 \<and> is_digit y2 \<and> is_digit y3 \<and> is_digit y4 \<and> sep1 = CHR ''-'' then
        (case match_month rest of
           None \<Rightarrow> None
         | Some (m, rest1) \<Rightarrow>
             (case rest1 of
                [] \<Rightarrow> None
              | sep2 # rest2 \<Rightarrow>
                  if sep2 = CHR ''-'' then
                    (case match_day rest2 of
                       None \<Rightarrow> None
                     | Some (d, rest3) \<Rightarrow>
                         (let y = 1000 * digit_val y1 + 100 * digit_val y2 + 10 * digit_val y3
                                    + digit_val y4
                          in if rest3 = [] \<and> valid_date y m d
                             then Some \<lparr>year = y, month = m, day = d\<rparr> else None))
                  else None))
      else None)"
| "strptime _ = None"

text \<open>\<^verbatim>\<open>dt.date.today() - dt.timedelta(days=1)\<close>; no date precedes 0001-01-01.\<close>

definition yesterday :: "date \<Rightarrow> error + date" where
  "yesterday today =
     (if 1 < day today then Inr (today\<lparr>day := day today - 1\<rparr>)
      else if 1 < month today then
        Inr (today\<lparr>month := month today - 1,
                    day := days_in_month (year today) (month today - 1)\<rparr>)
      else if 1 < year today then Inr \<lparr>year = year today - 1, month = 12, day = 31\<rparr>
      else Inl OverflowError)"

text \<open>Lines 112 to 119: the target date, from the \<^verbatim>\<open>--date\<close> option or the clock.\<close>

definition resolve_date :: "string option \<Rightarrow> date \<Rightarrow> error + date" where
  "resolve_date date_opt today =
     (case date_opt of
        None \<Rightarrow> yesterday today
      | Some s \<Rightarrow>
          if s \<noteq> [] then
            (case strptime s of
               Some d \<Rightarrow> Inr d
             | None \<Rightarrow> Inl (BadParameter (''Invalid date format: '' @ s @ ''. Use YYYY-MM-DD.'')))
          else yesterday today)"

subsection \<open>Output paths\<close>

text \<open>
  \<^verbatim>\<open>os.path.join\<close> on POSIX: a component that starts with the separator replaces what
  was joined so far, and a separator is inserted only after a non-empty path that does
  not already end with one.
\<close>

definition join2 :: "string \<Rightarrow> string \<Rightarrow> string" where
  "join2 path b =
     (if (b \<noteq> [] \<and> hd b = CHR ''/'') \<or> path = [] then b
      else if last path = CHR ''/'' then path @ b
      else path @ ''/'' @ b)"

definition path_join :: "string \<Rightarrow> string list \<Rightarrow> string" where
  "path_join a p = foldl join2 a p"

text \<open>Lines 164 and 166.\<close>

definition out_dir :: "string \<Rightarrow> string" where
  "out_dir listing_id = path_join ''data'' [''raw'', listing_id]"

definition out_path :: "string \<Rightarrow> date \<Rightarrow> string" where
  "out_path listing_id target_date =
     path_join (out_dir listing_id) [date_str target_date @ ''.parquet'']"

subsection \<open>The orchestrator \<^verbatim>\<open>etl\<close>\<close>

record environ =
  WHEELHOUSE_BASE_URL :: "string option"
  WHEELHOUSE_API_KEY :: "string option"

definition rstrip_slash :: "string \<Rightarrow> string" where
  "rstrip_slash s = rev (dropWhile (\<lambda>c. c = CHR ''/'') (rev s))"

definition metrics_url :: "string \<Rightarrow> string \<Rightarrow> string" where
  "metrics_url base_url listing_id = base_url @ ''/listings/'' @ listing_id @ ''/metrics''"

definition metrics_params :: "date \<Rightarrow> (string \<times> string) list" where
  "metrics_params target_date =
     [(''start_date'', date_str target_date), (''end_date'', date_str target_date)]"

text \<open>Lines 126 and 127: a bearer token when the API key is set and not empty.\<close>

definition auth_headers :: "environ \<Rightarrow> (string \<times> string) list" where
  "auth_headers env =
     (case WHEELHOUSE_API_KEY env of
        None \<Rightarrow> []
      | Some api_key \<Rightarrow>
          if api_key = [] then [] else [(''Authorization'', ''Bearer '' @ api_key)])"

text \<open>One call into pandas or the file system: logged, and answered by the platform.\<close>

definition lib_do :: "lib_call \<Rightarrow> world \<Rightarrow> error option \<times> world" where
  "lib_do c w = (lib_outcome w (length (lib_calls w)) c, w\<lparr>lib_calls := lib_calls w @ [c]\<rparr>)"

text \<open>
  Lines 162 to 169 for one listing: \<^verbatim>\<open>pd.DataFrame(records)\<close>, one row per record,
  \<^verbatim>\<open>os.makedirs(out_dir, exist_ok=True)\<close>, \<^verbatim>\<open>df.to_parquet(out_path, index=False)\<close> and
  the echo. An exception of any of the three calls ends the run; a write that succeeds
  replaces whatever was written through the path before.
\<close>

definition write_metrics ::
  "string \<Rightarrow> date \<Rightarrow> json list \<Rightarrow> world \<Rightarrow> (error + unit) \<times> world" where
  "write_metrics listing_id target_date records w =
     (case lib_do (DataFrame records) w of
        (Some e, w1) \<Rightarrow> (Inl e, w1)
      | (None, w1) \<Rightarrow>
          (case lib_do (Makedirs (out_dir listing_id)) w1 of
             (Some e, w2) \<Rightarrow> (Inl e, w2)
           | (None, w2) \<Rightarrow>
               (case lib_do (ToParquet (out_path listing_id target_date) records) w2 of
                  (Some e, w3) \<Rightarrow> (Inl e, w3)
                | (None, w3) \<Rightarrow>
                    (Inr (),
                     w3\<lparr>fs := (fs w3)(out_path listing_id target_date \<mapsto> records),
                        out := out w3 @ [''Wrote metrics for listing '' @ listing_id @ '' to ''
                                          @ out_path listing_id target_date]\<rparr>))))"

text \<open>The platform lets the three calls of \<open>write_metrics\<close> succeed in the world \<open>w\<close>.\<close>

definition write_succeeds :: "string \<Rightarrow> date \<Rightarrow> json list \<Rightarrow> world \<Rightarrow> bool" where
  "write_succeeds listing_id target_date records w =
     (lib_outcome w (length (lib_calls w)) (DataFrame records) = None
      \<and> lib_outcome w (length (lib_calls w) + 1) (Makedirs (out_dir listing_id)) = None
      \<and> lib_outcome w (length (lib_calls w) + 2)
           (ToParquet (out_path listing_id target_date) records) = None)"

text \<open>The world that a successful \<open>write_metrics\<close> leaves.\<close>

definition wrote_metrics :: "string \<Rightarrow> date \<Rightarrow> json list \<Rightarrow> world \<Rightarrow> world" where
  "wrote_metrics listing_id target_date records w =
     w\<lparr>lib_calls := lib_calls w @ [DataFrame records, Makedirs (out_dir listing_id),
                                    ToParquet (out_path listing_id target_date) records],
       fs := (fs w)(out_path listing_id target_date \<mapsto> records),
       out := out w @ [''Wrote metrics for listing '' @ listing_id @ '' to ''
                        @ out_path listing_id target_date]\<rparr>"

text \<open>The loop of lines 139 to 169 over the listing IDs that remain.\<close>

fun etl_for_loop ::
  "server \<Rightarrow> string \<Rightarrow> (string \<times> string) list \<Rightarrow> date \<Rightarrow> string list \<Rightarrow> world
     \<Rightarrow> (error + unit) \<times> world" where
  "etl_for_loop srv base_url hdrs target_date [] w = (Inr (), w)"
| "etl_for_loop srv base_url hdrs target_date (listing_id # rest) w =
     (case get_with_retry srv (metrics_url base_url listing_id) (Some hdrs)
             (Some (metrics_params target_date)) 3 1 w of
        (Inl e, w1) \<Rightarrow> (Inl e, w1)
      | (Inr metrics_json, w1) \<Rightarrow>
          (case write_metrics listing_id target_date (extract_records metrics_json) w1 of
             (Inl e, w2) \<Rightarrow> (Inl e, w2)
           | (Inr _, w2) \<Rightarrow> etl_for_loop srv base_url hdrs target_date rest w2))"

text \<open>
  The command, given the \<^verbatim>\<open>--date\<close> option, the environment, the clock's date, the
  upstream API and the world it starts in.
\<close>

definition etl ::
  "string option \<Rightarrow> environ \<Rightarrow> date \<Rightarrow> server \<Rightarrow> world \<Rightarrow> (error + unit) \<times> world" where
  "etl date_opt env today srv w =
     (case resolve_date date_opt today of
        Inl e \<Rightarrow> (Inl e, w)
      | Inr target_date \<Rightarrow>
          (case WHEELHOUSE_BASE_URL env of
             None \<Rightarrow>
               (Inl (Exit 1),
                w\<lparr>err := err w @ [''Environment variable WHEELHOUSE_BASE_URL must be set.'']\<rparr>)
           | Some raw_url \<Rightarrow>
               if raw_url = [] then
                 (Inl (Exit 1),
                  w\<lparr>err := err w @ [''Environment variable WHEELHOUSE_BASE_URL must be set.'']\<rparr>)
               else
                 (let base_url = rstrip_slash raw_url;
                      hdrs = auth_headers env
                  in case get_with_retry srv (base_url @ ''/listings'') (Some hdrs) None 3 1 w of
                       (Inl e, w1) \<Rightarrow> (Inl e, w1)
                     | (Inr listings_json, w1) \<Rightarrow>
                         (let listing_ids = extract_listing_ids listings_json
                          in if listing_ids = [] then
                               (Inr (),
                                w1\<lparr>out := out w1
                                      @ [''No listings returned from /listings endpoint.'']\<rparr>)
                             else etl_for_loop srv base_url hdrs target_date listing_ids w1))))"

text \<open>
  The exit status of the process: 0 on return, the code of \<^verbatim>\<open>typer.Exit\<close>, 2 for the usage
  error \<^verbatim>\<open>typer.BadParameter\<close>, 1 for an exception that nothing catches.
\<close>

definition exit_code :: "error + unit \<Rightarrow> int" where
  "exit_code r =
     (case r of
        Inr _ \<Rightarrow> 0
      | Inl (Exit c) \<Rightarrow> c
      | Inl (BadParameter _) \<Rightarrow> 2
      | Inl _ \<Rightarrow> 1)"

subsection \<open>Concrete runs\<close>

text \<open>A fresh run on a platform where every call into pandas and the file system succeeds.\<close>

definition world0 :: world where
  "world0 = \<lparr>reqs = [], sleeps = [], out = [], err = [], fs = Map.empty, lib_calls = [],
              lib_outcome = (\<lambda>n c. None)\<rparr>"

definition resp :: "int \<Rightarrow> json option \<Rightarrow> http_result" where
  "resp code body = Response \<lparr>status_code = code, json_body = body\<rparr>"

text \<open>An API that answers every request with 429.\<close>

definition always_429 :: server where
  "always_429 n rq = resp 429 None"

text \<open>
  An API that answers the first request of the run with 429 and every later request with
  the given status and body.
\<close>

definition once_429_then :: "int \<Rightarrow> json option \<Rightarrow> server" where
  "once_429_then code body n rq = (if n = 0 then resp 429 None else resp code body)"

definition listings_url :: string where
  "listings_url = ''http://testserver/listings''"

definition env_test :: environ where
  "env_test = \<lparr>WHEELHOUSE_BASE_URL = Some ''http://testserver'', WHEELHOUSE_API_KEY = None\<rparr>"

definition env_unset :: environ where
  "env_unset = \<lparr>WHEELHOUSE_BASE_URL = None, WHEELHOUSE_API_KEY = None\<rparr>"

definition today_test :: date where
  "today_test = \<lparr>year = 2025, month = 7, day = 2\<rparr>"

text \<open>
  The scenario of \<^verbatim>\<open>test_etl_rate_limit\<close>: the first request is answered with 429, then
  the listings are \<^verbatim>\<open>[{"id": 1}]\<close> and every metrics payload is the empty list.
\<close>

definition rate_limited_api :: server where
  "rate_limited_api n rq =
     (if n = 0 then resp 429 None
      else if url rq = listings_url then resp 200 (Some (JList [JDict [(''id'', JInt 1)]]))
      else resp 200 (Some (JList [])))"

text \<open>Two listings; the metrics of the first are empty, the request for the second fails.\<close>

definition second_fails_api :: server where
  "second_fails_api n rq =
     (if url rq = listings_url
        then resp 200 (Some (JList [JDict [(''id'', JInt 1)], JDict [(''id'', JInt 2)]]))
      else if url rq = ''http://testserver/listings/1/metrics'' then resp 200 (Some (JList []))
      else resp 500 None)"

text \<open>An API that answers 204 with an empty body, which does not decode as JSON.\<close>

definition no_content_api :: server where
  "no_content_api n rq = resp 204 None"

text \<open>
  A platform where a directory cannot be created at \<^verbatim>\<open>data/raw/1/2025-07-01.parquet\<close>,
  as after the artifact of listing 1 has been written there.
\<close>

definition file_in_the_way :: "nat \<Rightarrow> lib_call \<Rightarrow> error option" where
  "file_in_the_way n c =
     (if c = Makedirs ''data/raw/1/2025-07-01.parquet'' then Some FileExistsError else None)"

text \<open>Listings 1 and \<^verbatim>\<open>1/2025-07-01.parquet\<close>, every metrics payload empty.\<close>

definition colliding_ids_api :: server where
  "colliding_ids_api n rq =
     (if url rq = listings_url
        then resp 200 (Some (JList [JStr ''1'', JStr ''1/2025-07-01.parquet'']))
      else resp 200 (Some (JList [])))"

text \<open>No listings at all.\<close>

definition no_listings_api :: server where
  "no_listings_api n rq = resp 200 (Some (JList []))"

text \<open>One listing whose ID starts with the path separator.\<close>

definition absolute_id_api :: server where
  "absolute_id_api n rq =
     (if url rq = listings_url then resp 200 (Some (JList [JStr ''/x'']))
      else resp 200 (Some (JList [JDict [(''value'', JInt 1)]])))"

section \<open>Verification\<close>

subsection \<open>The retrying fetcher\<close>

lemma backoff_sleep_ok:
  assumes "can_sleep attempt backoff_factor"
  shows "backoff_sleep attempt backoff_factor w =
         Inr (w\<lparr>sleeps := sleeps w @ [2 ^ attempt * backoff_factor]\<rparr>)"
  using assms by (simp add: can_sleep_def backoff_sleep_def backoff_delay_def sleep_def)

lemma backoff_sleep_Inr:
  assumes "backoff_sleep attempt backoff_factor w = Inr w2"
  shows "w2 = w\<lparr>sleeps := sleeps w @ [2 ^ attempt * backoff_factor]\<rparr>"
  using assms
  by (auto simp: backoff_sleep_def backoff_delay_def sleep_def split: if_splits)

text \<open>From attempt index 1024 on the delay cannot even be computed.\<close>

lemma backoff_sleep_overflow:
  assumes "1024 \<le> attempt"
  shows "backoff_sleep attempt backoff_factor w = Inl OverflowError"
  using assms by (simp add: backoff_sleep_def backoff_delay_def)

lemma get_loop_retry_step:
  assumes "srv (length (reqs w)) rq = Response r" "status_code r = 429"
    "int attempt < max_retries - 1" "can_sleep attempt backoff_factor"
  shows "get_loop srv rq max_retries backoff_factor attempt w =
         get_loop srv rq max_retries backoff_factor (attempt + 1)
           (w\<lparr>reqs := reqs w @ [rq], sleeps := sleeps w @ [2 ^ attempt * backoff_factor]\<rparr>)"
  using assms(1-3)
  by (subst get_loop.simps) (simp add: client_get_def backoff_sleep_ok[OF assms(4)])

lemma get_loop_final:
  assumes "srv (length (reqs w)) rq = Response r"
    "\<not> (status_code r = 429 \<and> int attempt < max_retries - 1)"
  shows "get_loop srv rq max_retries backoff_factor attempt w =
         ((case raise_for_status r of
             Inl e \<Rightarrow> Inl e
           | Inr _ \<Rightarrow> (case json_body r of None \<Rightarrow> Inl JSONDecodeError | Some j \<Rightarrow> Inr j)),
          w\<lparr>reqs := reqs w @ [rq]\<rparr>)"
  using assms
  by (subst get_loop.simps) (auto simp add: client_get_def split: sum.splits option.splits)

lemma get_loop_transport:
  assumes "srv (length (reqs w)) rq = TransportError"
  shows "get_loop srv rq max_retries backoff_factor attempt w =
         (Inl HTTPTransportError, w\<lparr>reqs := reqs w @ [rq]\<rparr>)"
  using assms by (subst get_loop.simps) (simp add: client_get_def)

lemma get_loop_sleep_fails:
  assumes "srv (length (reqs w)) rq = Response r" "status_code r = 429"
    "int attempt < max_retries - 1"
    "backoff_sleep attempt backoff_factor (w\<lparr>reqs := reqs w @ [rq]\<rparr>) = Inl e"
  shows "get_loop srv rq max_retries backoff_factor attempt w =
         (Inl e, w\<lparr>reqs := reqs w @ [rq]\<rparr>)"
  using assms by (subst get_loop.simps) (simp add: client_get_def)

lemma get_loop_sleep_goes_on:
  assumes "srv (length (reqs w)) rq = Response r" "status_code r = 429"
    "int attempt < max_retries - 1"
    "backoff_sleep attempt backoff_factor (w\<lparr>reqs := reqs w @ [rq]\<rparr>) = Inr w2"
  shows "get_loop srv rq max_retries backoff_factor attempt w =
         get_loop srv rq max_retries backoff_factor (attempt + 1) w2"
  using assms by (subst get_loop.simps) (simp add: client_get_def)

text \<open>
  What a call of the loop leaves untouched, and what it adds to the log of requests: at
  least one request, all the same, and no more than the attempts that remain.
\<close>

lemma get_loop_effect:
  "(\<exists>n. 1 \<le> n \<and> int n \<le> max 1 (max_retries - int attempt) \<and>
       reqs (snd (get_loop srv rq max_retries backoff_factor attempt w)) = reqs w @ replicate n rq)
   \<and> fs (snd (get_loop srv rq max_retries backoff_factor attempt w)) = fs w
   \<and> out (snd (get_loop srv rq max_retries backoff_factor attempt w)) = out w
   \<and> err (snd (get_loop srv rq max_retries backoff_factor attempt w)) = err w
   \<and> lib_calls (snd (get_loop srv rq max_retries backoff_factor attempt w)) = lib_calls w
   \<and> lib_outcome (snd (get_loop srv rq max_retries backoff_factor attempt w)) = lib_outcome w"
proof (induction "nat (max_retries - 1 - int attempt)" arbitrary: attempt w)
  case 0
  show ?case
  proof (cases "srv (length (reqs w)) rq")
    case TransportError
    then show ?thesis
      by (auto simp: get_loop_transport intro!: exI[of _ 1])
  next
    case (Response r)
    have "\<not> (status_code r = 429 \<and> int attempt < max_retries - 1)"
      using 0 by simp
    with Response get_loop_final[where srv=srv and w=w and rq=rq and r=r and attempt=attempt
        and max_retries=max_retries and backoff_factor=backoff_factor]
    show ?thesis
      by (auto intro!: exI[of _ 1])
  qed
next
  case (Suc k)
  show ?case
  proof (cases "srv (length (reqs w)) rq")
    case TransportError
    then show ?thesis
      by (auto simp: get_loop_transport intro!: exI[of _ 1])
  next
    case (Response r)
    show ?thesis
    proof (cases "status_code r = 429 \<and> int attempt < max_retries - 1")
      case False
      with Response get_loop_final[where srv=srv and w=w and rq=rq and r=r and attempt=attempt
          and max_retries=max_retries and backoff_factor=backoff_factor]
      show ?thesis
        by (auto intro!: exI[of _ 1])
    next
      case True
      show ?thesis
      proof (cases "backoff_sleep attempt backoff_factor (w\<lparr>reqs := reqs w @ [rq]\<rparr>)")
        case (Inl e)
        have "get_loop srv rq max_retries backoff_factor attempt w =
              (Inl e, w\<lparr>reqs := reqs w @ [rq]\<rparr>)"
          using Response True Inl
          by (intro get_loop_sleep_fails[where r=r]) simp_all
        then show ?thesis
          by (auto intro!: exI[of _ 1])
      next
        case (Inr w2)
        have w2: "w2 = w\<lparr>reqs := reqs w @ [rq],
                          sleeps := sleeps w @ [2 ^ attempt * backoff_factor]\<rparr>"
          using backoff_sleep_Inr[OF Inr] by simp
        have "k = nat (max_retries - 1 - int (attempt + 1))"
          using Suc.hyps(2) by simp
        note ih = Suc.hyps(1)[OF this, of w2]
        from ih obtain n where n: "1 \<le> n" "int n \<le> max 1 (max_retries - int (attempt + 1))"
          "reqs (snd (get_loop srv rq max_retries backoff_factor (attempt + 1) w2)) =
             reqs w2 @ replicate n rq"
          by blast
        have eq: "get_loop srv rq max_retries backoff_factor attempt w =
                  get_loop srv rq max_retries backoff_factor (attempt + 1) w2"
          using Response True Inr
          by (intro get_loop_sleep_goes_on[where r=r]) simp_all
        have "1 \<le> Suc n \<and> int (Suc n) \<le> max 1 (max_retries - int attempt) \<and>
              reqs (snd (get_loop srv rq max_retries backoff_factor attempt w)) =
                reqs w @ replicate (Suc n) rq"
          unfolding eq using n True w2 by (simp add: replicate_append_same)
        then have "\<exists>n. 1 \<le> n \<and> int n \<le> max 1 (max_retries - int attempt) \<and>
              reqs (snd (get_loop srv rq max_retries backoff_factor attempt w)) =
                reqs w @ replicate n rq"
          by blast
        then show ?thesis
          unfolding eq using ih w2 by simp
      qed
    qed
  qed
qed

lemma get_loop_retries:
  assumes "\<forall>i<k. \<exists>r. srv (length (reqs w) + i) rq = Response r \<and> status_code r = 429"
    and "\<forall>i<k. int (attempt + i) < max_retries - 1"
    and "\<forall>i<k. can_sleep (attempt + i) backoff_factor"
  shows "get_loop srv rq max_retries backoff_factor attempt w =
         get_loop srv rq max_retries backoff_factor (attempt + k)
           (w\<lparr>reqs := reqs w @ replicate k rq,
              sleeps := sleeps w @ map (\<lambda>i. 2 ^ i * backoff_factor) [attempt..<attempt + k]\<rparr>)"
  using assms
proof (induction k arbitrary: attempt w)
  case 0
  show ?case by simp
next
  case (Suc k)
  let ?w1 = "w\<lparr>reqs := reqs w @ [rq], sleeps := sleeps w @ [2 ^ attempt * backoff_factor]\<rparr>"
  from Suc.prems(1) obtain r where r: "srv (length (reqs w)) rq = Response r" "status_code r = 429"
    by fastforce
  from Suc.prems(2) have a: "int attempt < max_retries - 1"
    by fastforce
  from Suc.prems(3) have c: "can_sleep attempt backoff_factor"
    by fastforce
  have step: "get_loop srv rq max_retries backoff_factor attempt w =
              get_loop srv rq max_retries backoff_factor (attempt + 1) ?w1"
    using r a c
    by (rule get_loop_retry_step[where srv=srv and w=w and rq=rq and r=r])
  have p1: "\<forall>i<k. \<exists>r. srv (length (reqs ?w1) + i) rq = Response r \<and> status_code r = 429"
  proof (intro allI impI)
    fix i assume "i < k"
    then have "Suc i < Suc k" by simp
    with Suc.prems(1) have "\<exists>r. srv (length (reqs w) + Suc i) rq = Response r \<and> status_code r = 429"
      by blast
    then show "\<exists>r. srv (length (reqs ?w1) + i) rq = Response r \<and> status_code r = 429"
      by simp
  qed
  have p2: "\<forall>i<k. int (attempt + 1 + i) < max_retries - 1"
  proof (intro allI impI)
    fix i assume "i < k"
    then have "Suc i < Suc k" by simp
    with Suc.prems(2) have "int (attempt + Suc i) < max_retries - 1" by blast
    then show "int (attempt + 1 + i) < max_retries - 1" by simp
  qed
  have p3: "\<forall>i<k. can_sleep (attempt + 1 + i) backoff_factor"
  proof (intro allI impI)
    fix i assume "i < k"
    then have "Suc i < Suc k" by simp
    with Suc.prems(3) have "can_sleep (attempt + Suc i) backoff_factor" by blast
    then show "can_sleep (attempt + 1 + i) backoff_factor" by simp
  qed
  have upt: "[attempt..<attempt + Suc k] = attempt # [attempt + 1..<attempt + 1 + k]"
    by (simp add: upt_conv_Cons)
  show ?case
    unfolding step Suc.IH[OF p1 p2 p3] upt
    by (simp add: replicate_append_same)
qed

lemma get_loop_retries_then_final:
  assumes prior: "\<forall>i<k. (\<exists>r'. srv (length (reqs w) + i) rq = Response r' \<and> status_code r' = 429)
                       \<and> int i < max_retries - 1 \<and> can_sleep i backoff_factor"
    and r: "srv (length (reqs w) + k) rq = Response r"
    and stop: "\<not> (status_code r = 429 \<and> int k < max_retries - 1)"
  shows "get_loop srv rq max_retries backoff_factor 0 w =
         ((case raise_for_status r of
             Inl e \<Rightarrow> Inl e
           | Inr _ \<Rightarrow> (case json_body r of None \<Rightarrow> Inl JSONDecodeError | Some j \<Rightarrow> Inr j)),
          w\<lparr>reqs := reqs w @ replicate (Suc k) rq,
            sleeps := sleeps w @ map (\<lambda>i. 2 ^ i * backoff_factor) [0..<k]\<rparr>)"
proof -
  let ?wk = "w\<lparr>reqs := reqs w @ replicate k rq,
               sleeps := sleeps w @ map (\<lambda>i. 2 ^ i * backoff_factor) [0..<0 + k]\<rparr>"
  have h1: "\<forall>i<k. \<exists>r. srv (length (reqs w) + i) rq = Response r \<and> status_code r = 429"
    using prior by blast
  have h2: "\<forall>i<k. int (0 + i) < max_retries - 1"
    using prior by simp
  have h3: "\<forall>i<k. can_sleep (0 + i) backoff_factor"
    using prior by simp
  have run: "get_loop srv rq max_retries backoff_factor 0 w =
             get_loop srv rq max_retries backoff_factor (0 + k) ?wk"
    using h1 h2 h3 by (rule get_loop_retries)
  have r': "srv (length (reqs ?wk)) rq = Response r"
    using r by simp
  have stop': "\<not> (status_code r = 429 \<and> int (0 + k) < max_retries - 1)"
    using stop by simp
  have fin: "get_loop srv rq max_retries backoff_factor (0 + k) ?wk =
        ((case raise_for_status r of
             Inl e \<Rightarrow> Inl e
           | Inr _ \<Rightarrow> (case json_body r of None \<Rightarrow> Inl JSONDecodeError | Some j \<Rightarrow> Inr j)),
          ?wk\<lparr>reqs := reqs ?wk @ [rq]\<rparr>)"
    using r' stop' by (rule get_loop_final[where r=r])
  show ?thesis
    unfolding run fin by (simp add: replicate_append_same)
qed

lemma get_loop_all_429:
  assumes pos: "1 \<le> max_retries"
    and all: "\<forall>i. int i < max_retries \<longrightarrow>
            (\<exists>r. srv (length (reqs w) + i) rq = Response r \<and> status_code r = 429)"
    and sl: "\<forall>i. int i < max_retries - 1 \<longrightarrow> can_sleep i backoff_factor"
  shows "get_loop srv rq max_retries backoff_factor 0 w =
         (Inl (HTTPStatusError 429),
          w\<lparr>reqs := reqs w @ replicate (nat max_retries) rq,
            sleeps := sleeps w @
              map (\<lambda>i. 2 ^ i * backoff_factor) [0..<nat max_retries - 1]\<rparr>)"
proof -
  define k where "k = nat max_retries - 1"
  have n: "Suc k = nat max_retries"
    using pos by (simp add: k_def)
  have prior: "\<forall>i<k. (\<exists>r'. srv (length (reqs w) + i) rq = Response r' \<and> status_code r' = 429)
                       \<and> int i < max_retries - 1 \<and> can_sleep i backoff_factor"
  proof (intro allI impI)
    fix i assume "i < k"
    then have i: "int i < max_retries - 1"
      by (simp add: k_def)
    then have "int i < max_retries" by simp
    with all sl i
    show "(\<exists>r'. srv (length (reqs w) + i) rq = Response r' \<and> status_code r' = 429)
                       \<and> int i < max_retries - 1 \<and> can_sleep i backoff_factor"
      by blast
  qed
  have "int k < max_retries"
    using pos by (simp add: k_def)
  with all obtain r where r: "srv (length (reqs w) + k) rq = Response r" "status_code r = 429"
    by blast
  have stop: "\<not> (status_code r = 429 \<and> int k < max_retries - 1)"
    using pos by (simp add: k_def)
  have "get_loop srv rq max_retries backoff_factor 0 w =
         ((case raise_for_status r of
             Inl e \<Rightarrow> Inl e
           | Inr _ \<Rightarrow> (case json_body r of None \<Rightarrow> Inl JSONDecodeError | Some j \<Rightarrow> Inr j)),
          w\<lparr>reqs := reqs w @ replicate (Suc k) rq,
            sleeps := sleeps w @ map (\<lambda>i. 2 ^ i * backoff_factor) [0..<k]\<rparr>)"
    using prior r(1) stop by (rule get_loop_retries_then_final[where r=r])
  then show ?thesis
    unfolding n[symmetric] using r(2) by (simp add: raise_for_status_def)
qed

text \<open>
  Claim C9. With \<^verbatim>\<open>max_retries\<close> at most 1 (zero and negative values included) the guard
  \<^verbatim>\<open>attempt < max_retries - 1\<close> is false on the first attempt: a 429 response raises the
  HTTP error after that single request, nothing is slept and nothing is retried.
\<close>

theorem get_with_retry_single_attempt:
  assumes "max_retries \<le> 1"
    and "srv (length (reqs w)) (the_request u hdrs ps) = Response r"
    and "status_code r = 429"
  shows "get_with_retry srv u hdrs ps max_retries backoff_factor w =
           (Inl (HTTPStatusError 429), w\<lparr>reqs := reqs w @ [the_request u hdrs ps]\<rparr>)
         \<and> sleeps (snd (get_with_retry srv u hdrs ps max_retries backoff_factor w)) = sleeps w
         \<and> length (reqs (snd (get_with_retry srv u hdrs ps max_retries backoff_factor w)))
             = length (reqs w) + 1"
proof -
  have stop: "\<not> (status_code r = 429 \<and> int 0 < max_retries - 1)"
    using assms(1) by simp
  have "get_loop srv (the_request u hdrs ps) max_retries backoff_factor 0 w =
        ((case raise_for_status r of
             Inl e \<Rightarrow> Inl e
           | Inr _ \<Rightarrow> (case json_body r of None \<Rightarrow> Inl JSONDecodeError | Some j \<Rightarrow> Inr j)),
          w\<lparr>reqs := reqs w @ [the_request u hdrs ps]\<rparr>)"
    using assms(2) stop by (rule get_loop_final[where r=r])
  then show ?thesis
    using assms(3) by (simp add: get_with_retry_def raise_for_status_def)
qed

theorem get_with_retry_single_attempt_witness:
  "(0::int) \<le> 1 \<and>
   always_429 (length (reqs world0)) (the_request listings_url None None)
     = Response \<lparr>status_code = 429, json_body = None\<rparr> \<and>
   get_with_retry always_429 listings_url None None 0 1 world0 =
     (Inl (HTTPStatusError 429),
      world0\<lparr>reqs := [the_request listings_url None None]\<rparr>) \<and>
   sleeps (snd (get_with_retry always_429 listings_url None None 0 1 world0))
     = [] \<and>
   get_with_retry always_429 listings_url None None (- 2) 1 world0 =
     (Inl (HTTPStatusError 429),
      world0\<lparr>reqs := [the_request listings_url None None]\<rparr>) \<and>
   get_with_retry always_429 listings_url None None 1 1 world0 =
     (Inl (HTTPStatusError 429),
      world0\<lparr>reqs := [the_request listings_url None None]\<rparr>)"
  using get_with_retry_single_attempt[of 0 always_429 world0 listings_url
      None None "\<lparr>status_code = 429, json_body = None\<rparr>" 1]
    get_with_retry_single_attempt[of "- 2" always_429 world0 listings_url
      None None "\<lparr>status_code = 429, json_body = None\<rparr>" 1]
    get_with_retry_single_attempt[of 1 always_429 world0 listings_url
      None None "\<lparr>status_code = 429, json_body = None\<rparr>" 1]
  by (simp add: always_429_def resp_def world0_def)

text \<open>
  Claim C2, as amended. In a call whose first \<open>k\<close> responses were 429s that were retried
  (\<open>k\<close> may be 0), a next response with a 4xx or 5xx status other than 429 makes the call
  fail with the HTTP error carrying that status: the request that received it is the
  last one issued and the only delays slept are those of the \<open>k\<close> earlier retries. A 2xx
  response makes the call return the decoded JSON body when the body decodes, and raise
  the decoder's error when it does not.
\<close>

theorem get_with_retry_other_status:
  assumes "\<forall>i<k. (\<exists>r'. srv (length (reqs w) + i) (the_request u hdrs ps) = Response r'
                       \<and> status_code r' = 429)
                  \<and> int i < max_retries - 1 \<and> can_sleep i backoff_factor"
    and "srv (length (reqs w) + k) (the_request u hdrs ps) = Response r"
  shows "(400 \<le> status_code r \<and> status_code r \<le> 599 \<and> status_code r \<noteq> 429 \<longrightarrow>
            get_with_retry srv u hdrs ps max_retries backoff_factor w =
              (Inl (HTTPStatusError (status_code r)),
               w\<lparr>reqs := reqs w @ replicate (Suc k) (the_request u hdrs ps),
                 sleeps := sleeps w @ map (\<lambda>i. 2 ^ i * backoff_factor) [0..<k]\<rparr>))
         \<and> (200 \<le> status_code r \<and> status_code r \<le> 299 \<longrightarrow>
            get_with_retry srv u hdrs ps max_retries backoff_factor w =
              ((case json_body r of Some j \<Rightarrow> Inr j | None \<Rightarrow> Inl JSONDecodeError),
               w\<lparr>reqs := reqs w @ replicate (Suc k) (the_request u hdrs ps),
                 sleeps := sleeps w @ map (\<lambda>i. 2 ^ i * backoff_factor) [0..<k]\<rparr>))"
proof (intro conjI impI)
  assume a: "400 \<le> status_code r \<and> status_code r \<le> 599 \<and> status_code r \<noteq> 429"
  then have stop: "\<not> (status_code r = 429 \<and> int k < max_retries - 1)"
    by simp
  have fin: "get_loop srv (the_request u hdrs ps) max_retries backoff_factor 0 w =
         ((case raise_for_status r of
             Inl e \<Rightarrow> Inl e
           | Inr _ \<Rightarrow> (case json_body r of None \<Rightarrow> Inl JSONDecodeError | Some j \<Rightarrow> Inr j)),
          w\<lparr>reqs := reqs w @ replicate (Suc k) (the_request u hdrs ps),
            sleeps := sleeps w @ map (\<lambda>i. 2 ^ i * backoff_factor) [0..<k]\<rparr>)"
    using assms stop by (rule get_loop_retries_then_final[where r=r])
  show "get_with_retry srv u hdrs ps max_retries backoff_factor w =
              (Inl (HTTPStatusError (status_code r)),
               w\<lparr>reqs := reqs w @ replicate (Suc k) (the_request u hdrs ps),
                 sleeps := sleeps w @ map (\<lambda>i. 2 ^ i * backoff_factor) [0..<k]\<rparr>)"
    unfolding get_with_retry_def fin
    using a by (simp add: raise_for_status_def)
next
  assume a: "200 \<le> status_code r \<and> status_code r \<le> 299"
  then have stop: "\<not> (status_code r = 429 \<and> int k < max_retries - 1)"
    by simp
  have fin: "get_loop srv (the_request u hdrs ps) max_retries backoff_factor 0 w =
         ((case raise_for_status r of
             Inl e \<Rightarrow> Inl e
           | Inr _ \<Rightarrow> (case json_body r of None \<Rightarrow> Inl JSONDecodeError | Some j \<Rightarrow> Inr j)),
          w\<lparr>reqs := reqs w @ replicate (Suc k) (the_request u hdrs ps),
            sleeps := sleeps w @ map (\<lambda>i. 2 ^ i * backoff_factor) [0..<k]\<rparr>)"
    using assms stop by (rule get_loop_retries_then_final[where r=r])
  show "get_with_retry srv u hdrs ps max_retries backoff_factor w =
              ((case json_body r of Some j \<Rightarrow> Inr j | None \<Rightarrow> Inl JSONDecodeError),
               w\<lparr>reqs := reqs w @ replicate (Suc k) (the_request u hdrs ps),
                 sleeps := sleeps w @ map (\<lambda>i. 2 ^ i * backoff_factor) [0..<k]\<rparr>)"
    unfolding get_with_retry_def fin
    using a by (simp add: raise_for_status_def split: option.splits)
qed

theorem get_with_retry_other_status_witness:
  "get_with_retry (once_429_then 500 None) listings_url None None 3 1 world0 =
     (Inl (HTTPStatusError 500),
      world0\<lparr>reqs := [the_request listings_url None None, the_request listings_url None None],
             sleeps := [1]\<rparr>)
   \<and> get_with_retry (once_429_then 200 (Some (JList []))) listings_url None None 3 1 world0 =
     (Inr (JList []),
      world0\<lparr>reqs := [the_request listings_url None None, the_request listings_url None None],
             sleeps := [1]\<rparr>)
   \<and> get_with_retry (once_429_then 404 None) listings_url None None 3 1
       (world0\<lparr>reqs := [the_request listings_url None None]\<rparr>) =
     (Inl (HTTPStatusError 404),
      world0\<lparr>reqs := [the_request listings_url None None, the_request listings_url None None]\<rparr>)
   \<and> get_with_retry (once_429_then 204 None) listings_url None None 3 1 world0 =
     (Inl JSONDecodeError,
      world0\<lparr>reqs := [the_request listings_url None None, the_request listings_url None None],
             sleeps := [1]\<rparr>)"
  using get_with_retry_other_status[of 1 "once_429_then 500 None" world0 listings_url None None 3 1
      "\<lparr>status_code = 500, json_body = None\<rparr>"]
    get_with_retry_other_status[of 1 "once_429_then 200 (Some (JList []))" world0 listings_url
      None None 3 1 "\<lparr>status_code = 200, json_body = Some (JList [])\<rparr>"]
    get_with_retry_other_status[of 0 "once_429_then 404 None"
      "world0\<lparr>reqs := [the_request listings_url None None]\<rparr>" listings_url
      None None 3 1 "\<lparr>status_code = 404, json_body = None\<rparr>"]
    get_with_retry_other_status[of 1 "once_429_then 204 None" world0 listings_url None None 3 1
      "\<lparr>status_code = 204, json_body = None\<rparr>"]
  by (simp add: once_429_then_def resp_def world0_def can_sleep_def sleep_max_def)

text \<open>
  Claim C2 as stated fails on a 2xx response whose body is not JSON, such as a 204 with
  no body: the call raises the decoder's error, it does not return.
\<close>

theorem get_with_retry_other_status_counterexample:
  "no_content_api (length (reqs world0)) (the_request listings_url None None)
     = Response \<lparr>status_code = 204, json_body = None\<rparr>
   \<and> get_with_retry no_content_api listings_url None None 3 1 world0 =
     (Inl JSONDecodeError, world0\<lparr>reqs := [the_request listings_url None None]\<rparr>)"
proof -
  have r: "no_content_api (length (reqs world0)) (the_request listings_url None None) =
        Response \<lparr>status_code = 204, json_body = None\<rparr>"
    by (simp add: no_content_api_def resp_def)
  have stop: "\<not> (status_code \<lparr>status_code = 204, json_body = None\<rparr> = 429 \<and> int 0 < 3 - 1)"
    by simp
  have "get_loop no_content_api (the_request listings_url None None) 3 1 0 world0 =
        ((case raise_for_status \<lparr>status_code = 204, json_body = None\<rparr> of
             Inl e \<Rightarrow> Inl e
           | Inr _ \<Rightarrow> (case json_body \<lparr>status_code = 204, json_body = None\<rparr> of
                         None \<Rightarrow> Inl JSONDecodeError | Some j \<Rightarrow> Inr j)),
          world0\<lparr>reqs := reqs world0 @ [the_request listings_url None None]\<rparr>)"
    using r stop by (rule get_loop_final)
  then show ?thesis
    using r by (simp add: get_with_retry_def raise_for_status_def world0_def)
qed

text \<open>
  Claim C1, as amended. With at least one attempt allowed: a 429 response at an attempt
  index \<open>attempt < max_retries - 1\<close> whose delay can be slept (the index is below 1024,
  the delay is not negative and below the limit of \<^verbatim>\<open>time.sleep\<close>) sleeps
  \<open>backoff_factor * 2 ^ attempt\<close> seconds and retries the same request with the next
  index; a call issues at least one and at most \<open>max_retries\<close> requests, all the same;
  when every attempt returns 429 and every delay can be slept, the last attempt's HTTP
  error is raised after exactly \<open>max_retries\<close> requests, the delays doubling from the
  base; under the default policy (3 attempts, base 1) the delays are 1 and 2 seconds.
\<close>

theorem get_with_retry_backoff:
  "(srv (length (reqs w1)) rq = Response r \<and> status_code r = 429
      \<and> int attempt < max_retries - 1 \<and> can_sleep attempt backoff_factor \<longrightarrow>
      get_loop srv rq max_retries backoff_factor attempt w1 =
        get_loop srv rq max_retries backoff_factor (attempt + 1)
          (w1\<lparr>reqs := reqs w1 @ [rq], sleeps := sleeps w1 @ [backoff_factor * 2 ^ attempt]\<rparr>))
   \<and> (1 \<le> max_retries \<longrightarrow>
        (\<exists>n. 1 \<le> n \<and> int n \<le> max_retries \<and>
          reqs (snd (get_with_retry srv u hdrs ps max_retries backoff_factor w)) =
            reqs w @ replicate n (the_request u hdrs ps)))
   \<and> (1 \<le> max_retries
        \<and> (\<forall>i. int i < max_retries \<longrightarrow>
              (\<exists>r. srv (length (reqs w) + i) (the_request u hdrs ps) = Response r
                    \<and> status_code r = 429))
        \<and> (\<forall>i. int i < max_retries - 1 \<longrightarrow> can_sleep i backoff_factor) \<longrightarrow>
        get_with_retry srv u hdrs ps max_retries backoff_factor w =
          (Inl (HTTPStatusError 429),
           w\<lparr>reqs := reqs w @ replicate (nat max_retries) (the_request u hdrs ps),
             sleeps := sleeps w @
               map (\<lambda>i. backoff_factor * 2 ^ i) [0..<nat max_retries - 1]\<rparr>))
   \<and> ((\<forall>i. int i < 3 \<longrightarrow>
          (\<exists>r. srv (length (reqs w) + i) (the_request u hdrs ps) = Response r
                \<and> status_code r = 429)) \<longrightarrow>
        get_with_retry srv u hdrs ps 3 1 w =
          (Inl (HTTPStatusError 429),
           w\<lparr>reqs := reqs w @ [the_request u hdrs ps, the_request u hdrs ps,
                                 the_request u hdrs ps],
             sleeps := sleeps w @ [1, 2]\<rparr>))"
proof (intro conjI impI)
  assume a: "srv (length (reqs w1)) rq = Response r \<and> status_code r = 429
      \<and> int attempt < max_retries - 1 \<and> can_sleep attempt backoff_factor"
  have "get_loop srv rq max_retries backoff_factor attempt w1 =
        get_loop srv rq max_retries backoff_factor (attempt + 1)
          (w1\<lparr>reqs := reqs w1 @ [rq], sleeps := sleeps w1 @ [2 ^ attempt * backoff_factor]\<rparr>)"
    using a by (intro get_loop_retry_step[where r=r]) simp_all
  then show "get_loop srv rq max_retries backoff_factor attempt w1 =
        get_loop srv rq max_retries backoff_factor (attempt + 1)
          (w1\<lparr>reqs := reqs w1 @ [rq], sleeps := sleeps w1 @ [backoff_factor * 2 ^ attempt]\<rparr>)"
    by (simp add: mult.commute)
next
  assume pos: "1 \<le> max_retries"
  from get_loop_effect[of max_retries 0 srv "the_request u hdrs ps" backoff_factor w]
  obtain n where "1 \<le> n" "int n \<le> max 1 (max_retries - int 0)"
    "reqs (snd (get_loop srv (the_request u hdrs ps) max_retries backoff_factor 0 w)) =
       reqs w @ replicate n (the_request u hdrs ps)"
    by blast
  with pos show "\<exists>n. 1 \<le> n \<and> int n \<le> max_retries \<and>
          reqs (snd (get_with_retry srv u hdrs ps max_retries backoff_factor w)) =
            reqs w @ replicate n (the_request u hdrs ps)"
    by (auto simp: get_with_retry_def)
next
  assume a: "1 \<le> max_retries
        \<and> (\<forall>i. int i < max_retries \<longrightarrow>
              (\<exists>r. srv (length (reqs w) + i) (the_request u hdrs ps) = Response r
                    \<and> status_code r = 429))
        \<and> (\<forall>i. int i < max_retries - 1 \<longrightarrow> can_sleep i backoff_factor)"
  have m: "(\<lambda>i. 2 ^ i * backoff_factor) = (\<lambda>i. backoff_factor * 2 ^ i)"
    by (simp add: mult.commute)
  show "get_with_retry srv u hdrs ps max_retries backoff_factor w =
          (Inl (HTTPStatusError 429),
           w\<lparr>reqs := reqs w @ replicate (nat max_retries) (the_request u hdrs ps),
             sleeps := sleeps w @
               map (\<lambda>i. backoff_factor * 2 ^ i) [0..<nat max_retries - 1]\<rparr>)"
    unfolding get_with_retry_def m[symmetric]
    using a by (intro get_loop_all_429) simp_all
next
  assume a: "\<forall>i. int i < 3 \<longrightarrow>
          (\<exists>r. srv (length (reqs w) + i) (the_request u hdrs ps) = Response r
                \<and> status_code r = 429)"
  have sl: "\<forall>i. int i < 3 - 1 \<longrightarrow> can_sleep i 1"
  proof (intro allI impI)
    fix i :: nat assume "int i < 3 - 1"
    then have "i = 0 \<or> i = 1" by auto
    then show "can_sleep i 1"
      by (auto simp: can_sleep_def sleep_max_def)
  qed
  have "get_loop srv (the_request u hdrs ps) 3 1 0 w =
         (Inl (HTTPStatusError 429),
          w\<lparr>reqs := reqs w @ replicate (nat 3) (the_request u hdrs ps),
            sleeps := sleeps w @ map (\<lambda>i. 2 ^ i * 1) [0..<nat 3 - 1]\<rparr>)"
    using a sl by (intro get_loop_all_429) simp_all
  moreover have "[0..<nat 3 - 1] = [0, 1]"
    by (simp add: upt_rec)
  moreover have "replicate (nat 3) (the_request u hdrs ps) =
      [the_request u hdrs ps, the_request u hdrs ps, the_request u hdrs ps]"
    by (simp add: numeral_3_eq_3)
  ultimately show "get_with_retry srv u hdrs ps 3 1 w =
          (Inl (HTTPStatusError 429),
           w\<lparr>reqs := reqs w @ [the_request u hdrs ps, the_request u hdrs ps,
                                 the_request u hdrs ps],
             sleeps := sleeps w @ [1, 2]\<rparr>)"
    by (simp add: get_with_retry_def)
qed

theorem get_with_retry_backoff_witness:
  "get_loop always_429 (the_request listings_url None None) 3 1 0 world0 =
     get_loop always_429 (the_request listings_url None None) 3 1 1
       (world0\<lparr>reqs := [the_request listings_url None None], sleeps := [1]\<rparr>)
   \<and> get_with_retry always_429 listings_url None None 3 1 world0 =
       (Inl (HTTPStatusError 429),
        world0\<lparr>reqs := [the_request listings_url None None, the_request listings_url None None,
                         the_request listings_url None None],
               sleeps := [1, 2]\<rparr>)
   \<and> get_with_retry always_429 listings_url None None 2 (1 / 2) world0 =
       (Inl (HTTPStatusError 429),
        world0\<lparr>reqs := [the_request listings_url None None, the_request listings_url None None],
               sleeps := [1 / 2]\<rparr>)"
proof -
  have c1: "can_sleep 0 1"
    by (simp add: can_sleep_def sleep_max_def)
  have c2: "\<forall>i. int i < 2 - 1 \<longrightarrow> can_sleep i (1 / 2)"
    by (simp add: can_sleep_def sleep_max_def)
  show ?thesis
    using get_with_retry_backoff[of always_429 world0 "the_request listings_url None None"
        "\<lparr>status_code = 429, json_body = None\<rparr>" 0 3 1 listings_url None None world0]
      get_with_retry_backoff[of always_429 world0 "the_request listings_url None None"
        "\<lparr>status_code = 429, json_body = None\<rparr>" 0 2 "1 / 2" listings_url None None world0]
      c1 c2
    by (simp add: always_429_def resp_def world0_def numeral_2_eq_2)
qed

text \<open>
  Claim C1 as stated fails for a backoff base whose delay \<^verbatim>\<open>time.sleep\<close> refuses. With
  three attempts allowed and every response a 429, a base of \<^verbatim>\<open>1e10\<close> seconds raises
  \<^verbatim>\<open>OverflowError\<close> and a base of \<^verbatim>\<open>-1.0\<close> raises \<^verbatim>\<open>ValueError\<close>, both after the first
  request: nothing is slept, nothing is retried, and no HTTP error is surfaced.
\<close>

theorem get_with_retry_backoff_counterexample:
  "get_with_retry always_429 listings_url None None 3 (10 ^ 10) world0 =
     (Inl OverflowError, world0\<lparr>reqs := [the_request listings_url None None]\<rparr>)
   \<and> get_with_retry always_429 listings_url None None 3 (- 1) world0 =
     (Inl ValueError, world0\<lparr>reqs := [the_request listings_url None None]\<rparr>)"
proof -
  have r: "always_429 (length (reqs world0)) (the_request listings_url None None) =
        Response \<lparr>status_code = 429, json_body = None\<rparr>"
    by (simp add: always_429_def resp_def)
  have s1: "backoff_sleep 0 (10 ^ 10)
        (world0\<lparr>reqs := reqs world0 @ [the_request listings_url None None]\<rparr>) = Inl OverflowError"
    by (simp add: backoff_sleep_def backoff_delay_def sleep_def sleep_max_def)
  have s2: "backoff_sleep 0 (- 1)
        (world0\<lparr>reqs := reqs world0 @ [the_request listings_url None None]\<rparr>) = Inl ValueError"
    by (simp add: backoff_sleep_def backoff_delay_def sleep_def)
  have g1: "get_loop always_429 (the_request listings_url None None) 3 (10 ^ 10) 0 world0 =
        (Inl OverflowError, world0\<lparr>reqs := reqs world0 @ [the_request listings_url None None]\<rparr>)"
    using r _ _ s1 by (rule get_loop_sleep_fails) simp_all
  have g2: "get_loop always_429 (the_request listings_url None None) 3 (- 1) 0 world0 =
        (Inl ValueError, world0\<lparr>reqs := reqs world0 @ [the_request listings_url None None]\<rparr>)"
    using r _ _ s2 by (rule get_loop_sleep_fails) simp_all
  show ?thesis
    unfolding get_with_retry_def g1 g2 by (simp add: world0_def)
qed

subsection \<open>The normalizers\<close>

lemma element_id_eq:
  "(case item of
      JDict e \<Rightarrow> (case map_of e ''id'' of Some v \<Rightarrow> py_str v | None \<Rightarrow> py_str item)
    | _ \<Rightarrow> py_str item) = spec_element_id item"
proof (cases item)
  case (JDict e)
  show ?thesis
  proof (cases "map_of e ''id''")
    case None
    then have "''id'' \<notin> fst ` set e" by (simp add: map_of_eq_None_iff)
    with None JDict show ?thesis by (simp add: spec_element_id_def)
  next
    case (Some v)
    then have "''id'' \<in> fst ` set e" by (metis map_of_eq_None_iff option.distinct(1))
    with Some JDict show ?thesis by (simp add: spec_element_id_def)
  qed
qed (simp_all add: spec_element_id_def)

lemma ids_for_loop_map:
  "ids_for_loop items ids = ids @ map spec_element_id items"
proof (induction items arbitrary: ids)
  case Nil
  show ?case by simp
next
  case (Cons item items)
  have "(case item of
          JDict d \<Rightarrow>
            (case map_of d ''id'' of
               Some v \<Rightarrow> ids @ [py_str v]
             | None \<Rightarrow> ids @ [py_str item])
        | _ \<Rightarrow> ids @ [py_str item]) = ids @ [spec_element_id item]"
    using element_id_eq[of item] by (cases item) (auto split: option.splits)
  then show ?case by (simp add: Cons.IH)
qed

lemma extract_listing_ids_refines:
  "extract_listing_ids payload = spec_extract_listing_ids payload"
proof (cases payload)
  case (JList items)
  then show ?thesis
    by (simp add: extract_listing_ids_def spec_extract_listing_ids_def ids_for_loop_map)
next
  case (JDict d)
  have "(\<lambda>item. case item of
      JDict e \<Rightarrow> (case map_of e ''id'' of Some v \<Rightarrow> py_str v | None \<Rightarrow> py_str item)
    | _ \<Rightarrow> py_str item) = spec_element_id"
    by (rule ext) (rule element_id_eq)
  then show ?thesis using JDict
    by (simp add: extract_listing_ids_def spec_extract_listing_ids_def sequence_field_def
        split: option.splits json.splits)
qed (simp_all add: extract_listing_ids_def spec_extract_listing_ids_def)

lemma extract_records_refines:
  "extract_records payload = spec_extract_records payload"
  by (cases payload)
     (simp_all add: extract_records_def spec_extract_records_def is_sequence_def is_mapping_def
        sequence_field_def split: option.splits json.splits)

text \<open>
  Claim C3. The normalizer computes what section 4.2 words. A sequence gives one ID per
  element, in order and without deduplication: the stringified \<^verbatim>\<open>id\<close> of a mapping that
  has one, the stringified element otherwise (so scalars are stringified, and mappings
  with \<^verbatim>\<open>id\<close> give their \<^verbatim>\<open>id\<close>). A mapping with a \<^verbatim>\<open>results\<close> sequence gives that
  sequence's IDs by the same rule, a mapping without one gives its own keys in insertion
  order, and every other payload gives the empty sequence.
\<close>

theorem extract_listing_ids_shapes:
  "extract_listing_ids payload = spec_extract_listing_ids payload
   \<and> extract_listing_ids (JList items) = map spec_element_id items
   \<and> ((\<forall>x \<in> set items. \<not> is_mapping x) \<longrightarrow>
        extract_listing_ids (JList items) = map py_str items)
   \<and> ((\<forall>e \<in> set ds. ''id'' \<in> fst ` set e) \<longrightarrow>
        extract_listing_ids (JList (map JDict ds)) = map (\<lambda>e. py_str (the (map_of e ''id''))) ds)
   \<and> (sequence_field d ''results'' = Some results \<longrightarrow>
        extract_listing_ids (JDict d) = map spec_element_id results)
   \<and> (sequence_field d ''results'' = None \<longrightarrow> extract_listing_ids (JDict d) = map fst d)
   \<and> (\<not> is_sequence payload \<and> \<not> is_mapping payload \<longrightarrow> extract_listing_ids payload = [])
   \<and> length (extract_listing_ids (JList items)) = length items"
proof (intro conjI impI)
  show "extract_listing_ids payload = spec_extract_listing_ids payload"
    by (rule extract_listing_ids_refines)
next
  show "extract_listing_ids (JList items) = map spec_element_id items"
    by (simp add: extract_listing_ids_refines spec_extract_listing_ids_def)
next
  assume a: "\<forall>x \<in> set items. \<not> is_mapping x"
  have "map spec_element_id items = map py_str items"
  proof (rule map_cong[OF refl])
    fix x assume "x \<in> set items"
    with a have "\<not> is_mapping x" by blast
    then show "spec_element_id x = py_str x"
      by (cases x) (simp_all add: spec_element_id_def is_mapping_def)
  qed
  then show "extract_listing_ids (JList items) = map py_str items"
    by (simp add: extract_listing_ids_refines spec_extract_listing_ids_def)
next
  assume a: "\<forall>e \<in> set ds. ''id'' \<in> fst ` set e"
  have "map spec_element_id (map JDict ds) = map (\<lambda>e. py_str (the (map_of e ''id''))) ds"
    using a by (simp add: spec_element_id_def)
  then show "extract_listing_ids (JList (map JDict ds)) =
      map (\<lambda>e. py_str (the (map_of e ''id''))) ds"
    by (simp add: extract_listing_ids_refines spec_extract_listing_ids_def)
next
  assume "sequence_field d ''results'' = Some results"
  then show "extract_listing_ids (JDict d) = map spec_element_id results"
    by (simp add: extract_listing_ids_refines spec_extract_listing_ids_def)
next
  assume "sequence_field d ''results'' = None"
  then show "extract_listing_ids (JDict d) = map fst d"
    by (simp add: extract_listing_ids_refines spec_extract_listing_ids_def)
next
  assume "\<not> is_sequence payload \<and> \<not> is_mapping payload"
  then show "extract_listing_ids payload = []"
    by (cases payload)
       (simp_all add: extract_listing_ids_def is_sequence_def is_mapping_def)
next
  show "length (extract_listing_ids (JList items)) = length items"
    by (simp add: extract_listing_ids_refines spec_extract_listing_ids_def)
qed

theorem extract_listing_ids_shapes_witness:
  "extract_listing_ids (JList [JInt 7, JInt 7, JStr ''a'']) = [''7'', ''7'', ''a'']
   \<and> extract_listing_ids (JList (map JDict [[(''id'', JInt 1)], [(''id'', JStr ''b'')]]))
       = [''1'', ''b'']
   \<and> extract_listing_ids (JList [JDict [(''id'', JInt 1)], JStr ''x'', JDict [(''n'', JInt 3)]])
       = [''1'', ''x'', ''{'' @ [CHR 0x27] @ ''n'' @ [CHR 0x27] @ '': 3}'']
   \<and> extract_listing_ids (JDict [(''results'', JList [JDict [(''id'', JInt 1)], JInt 2])])
       = [''1'', ''2'']
   \<and> extract_listing_ids (JDict [(''k1'', JInt 1), (''k2'', JNull)]) = [''k1'', ''k2'']
   \<and> extract_listing_ids (JStr ''abc'') = []"
  using extract_listing_ids_shapes[of "JStr ''abc''" "[JInt 7, JInt 7, JStr ''a'']"
      "[[(''id'', JInt 1)], [(''id'', JStr ''b'')]]"
      "[(''results'', JList [JDict [(''id'', JInt 1)], JInt 2])]" "[JDict [(''id'', JInt 1)], JInt 2]"]
    extract_listing_ids_shapes[of JNull
      "[JDict [(''id'', JInt 1)], JStr ''x'', JDict [(''n'', JInt 3)]]" "[]"
      "[(''k1'', JInt 1), (''k2'', JNull)]" "[]"]
  by (simp add: is_mapping_def is_sequence_def sequence_field_def spec_element_id_def py_str_def
      spec_extract_listing_ids_def str_int_def str_nat.simps digit_char_def repr_str_def repr_char_def is_printable_def Let_def)

text \<open>
  Claim C10. When the \<^verbatim>\<open>results\<close> field of a mapping payload is present but is not a
  sequence, the IDs returned are the keys of the mapping in iteration order, the key
  \<^verbatim>\<open>results\<close> among them.
\<close>

theorem extract_listing_ids_results_not_sequence:
  assumes "map_of d ''results'' = Some v" and "\<not> is_sequence v"
  shows "extract_listing_ids (JDict d) = map fst d
         \<and> ''results'' \<in> set (extract_listing_ids (JDict d))"
proof -
  have "sequence_field d ''results'' = None"
    using assms by (cases v) (simp_all add: sequence_field_def is_sequence_def)
  then have eq: "extract_listing_ids (JDict d) = map fst d"
    by (simp add: extract_listing_ids_refines spec_extract_listing_ids_def)
  from assms(1) have "(''results'', v) \<in> set d"
    by (rule map_of_SomeD)
  then have "''results'' \<in> set (map fst d)"
    by force
  with eq show ?thesis by simp
qed

theorem extract_listing_ids_results_not_sequence_witness:
  "extract_listing_ids (JDict [(''count'', JInt 2), (''results'', JStr ''none''), (''next'', JNull)])
     = [''count'', ''results'', ''next'']
   \<and> extract_listing_ids (JDict [(''results'', JDict [(''id'', JInt 5)])]) = [''results'']"
  using extract_listing_ids_results_not_sequence[of
      "[(''count'', JInt 2), (''results'', JStr ''none''), (''next'', JNull)]" "JStr ''none''"]
    extract_listing_ids_results_not_sequence[of
      "[(''results'', JDict [(''id'', JInt 5)])]" "JDict [(''id'', JInt 5)]"]
  by (simp add: is_sequence_def)

text \<open>
  Claim C4. Record extraction computes what section 4.3 words: nothing for a null
  payload, a sequence payload itself, for a mapping its \<^verbatim>\<open>data\<close> field when that is a
  sequence, else its \<^verbatim>\<open>results\<close> field when that is a sequence, else the mapping as the
  single record, and nothing for any other payload.
\<close>

theorem extract_records_shapes:
  "extract_records payload = spec_extract_records payload
   \<and> extract_records JNull = []
   \<and> extract_records (JList records) = records
   \<and> (sequence_field d ''data'' = Some xs \<longrightarrow> extract_records (JDict d) = xs)
   \<and> (sequence_field d ''data'' = None \<and> sequence_field d ''results'' = Some ys \<longrightarrow>
        extract_records (JDict d) = ys)
   \<and> (sequence_field d ''data'' = None \<and> sequence_field d ''results'' = None \<longrightarrow>
        extract_records (JDict d) = [JDict d])
   \<and> (payload \<noteq> JNull \<and> \<not> is_sequence payload \<and> \<not> is_mapping payload \<longrightarrow>
        extract_records payload = [])"
proof (intro conjI impI)
  show "extract_records payload = spec_extract_records payload"
    by (rule extract_records_refines)
next
  show "extract_records JNull = []"
    by (simp add: extract_records_def)
next
  show "extract_records (JList records) = records"
    by (simp add: extract_records_def)
next
  assume "sequence_field d ''data'' = Some xs"
  then show "extract_records (JDict d) = xs"
    by (simp add: extract_records_refines spec_extract_records_def is_sequence_def is_mapping_def)
next
  assume "sequence_field d ''data'' = None \<and> sequence_field d ''results'' = Some ys"
  then show "extract_records (JDict d) = ys"
    by (simp add: extract_records_refines spec_extract_records_def is_sequence_def is_mapping_def)
next
  assume "sequence_field d ''data'' = None \<and> sequence_field d ''results'' = None"
  then show "extract_records (JDict d) = [JDict d]"
    by (simp add: extract_records_refines spec_extract_records_def is_sequence_def is_mapping_def)
next
  assume "payload \<noteq> JNull \<and> \<not> is_sequence payload \<and> \<not> is_mapping payload"
  then show "extract_records payload = []"
    by (cases payload) (simp_all add: extract_records_def is_sequence_def is_mapping_def)
qed

theorem extract_records_shapes_witness:
  "extract_records (JDict [(''data'', JList [JInt 1]), (''results'', JList [JInt 2])]) = [JInt 1]
   \<and> extract_records (JDict [(''data'', JStr ''x''), (''results'', JList [JInt 2])]) = [JInt 2]
   \<and> extract_records (JDict [(''value'', JInt 3)]) = [JDict [(''value'', JInt 3)]]
   \<and> extract_records (JDict [(''data'', JNull), (''results'', JInt 0)])
       = [JDict [(''data'', JNull), (''results'', JInt 0)]]
   \<and> extract_records (JStr ''abc'') = []
   \<and> extract_records (JInt 5) = []"
  using extract_records_shapes[of "JStr ''abc''" "[]"
      "[(''data'', JList [JInt 1]), (''results'', JList [JInt 2])]" "[JInt 1]" "[]"]
    extract_records_shapes[of "JInt 5" "[]"
      "[(''data'', JStr ''x''), (''results'', JList [JInt 2])]" "[]" "[JInt 2]"]
    extract_records_shapes[of JNull "[]" "[(''value'', JInt 3)]" "[]" "[]"]
    extract_records_shapes[of JNull "[]" "[(''data'', JNull), (''results'', JInt 0)]" "[]" "[]"]
  by (simp add: sequence_field_def is_sequence_def is_mapping_def spec_extract_records_def)

subsection \<open>The orchestrator\<close>

lemma get_with_retry_frame:
  assumes "get_with_retry srv u hdrs ps max_retries backoff_factor w = (res, w1)"
  shows "fs w1 = fs w" and "out w1 = out w" and "err w1 = err w"
    and "\<exists>n. 1 \<le> n \<and> reqs w1 = reqs w @ replicate n (the_request u hdrs ps)"
    and "lib_calls w1 = lib_calls w" and "lib_outcome w1 = lib_outcome w"
proof -
  have w1: "w1 = snd (get_loop srv (the_request u hdrs ps) max_retries backoff_factor 0 w)"
    using assms by (simp add: get_with_retry_def)
  note eff = get_loop_effect[of max_retries 0 srv "the_request u hdrs ps" backoff_factor w]
  show "fs w1 = fs w" and "out w1 = out w" and "err w1 = err w"
    and "lib_calls w1 = lib_calls w" and "lib_outcome w1 = lib_outcome w"
    unfolding w1 using eff by simp_all
  show "\<exists>n. 1 \<le> n \<and> reqs w1 = reqs w @ replicate n (the_request u hdrs ps)"
    unfolding w1 using eff by blast
qed

text \<open>
  Claim C7, as amended. In a run whose target date resolves (a valid \<^verbatim>\<open>--date\<close>, or the
  default), an absent base URL (unset or empty) makes the program echo a message to
  standard error and exit with code 1, no request having been issued.
\<close>

theorem etl_missing_base_url:
  assumes "resolve_date date_opt today = Inr target_date"
    and "WHEELHOUSE_BASE_URL env = None \<or> WHEELHOUSE_BASE_URL env = Some []"
  shows "etl date_opt env today srv w =
           (Inl (Exit 1),
            w\<lparr>err := err w @ [''Environment variable WHEELHOUSE_BASE_URL must be set.'']\<rparr>)
         \<and> exit_code (fst (etl date_opt env today srv w)) = 1
         \<and> reqs (snd (etl date_opt env today srv w)) = reqs w"
  using assms by (auto simp: etl_def exit_code_def)

theorem etl_missing_base_url_witness:
  "etl (Some ''2025-07-01'') env_unset today_test always_429 world0 =
     (Inl (Exit 1),
      world0\<lparr>err := [''Environment variable WHEELHOUSE_BASE_URL must be set.'']\<rparr>)
   \<and> etl None (env_test\<lparr>WHEELHOUSE_BASE_URL := Some []\<rparr>) today_test always_429 world0 =
     (Inl (Exit 1),
      world0\<lparr>err := [''Environment variable WHEELHOUSE_BASE_URL must be set.'']\<rparr>)
   \<and> exit_code (fst (etl (Some ''2025-07-01'') env_unset today_test always_429 world0)) = 1
   \<and> reqs (snd (etl (Some ''2025-07-01'') env_unset today_test always_429 world0)) = []"
proof -
  have d1: "resolve_date (Some ''2025-07-01'') today_test = Inr \<lparr>year = 2025, month = 7, day = 1\<rparr>"
    by (simp add: resolve_date_def is_digit_def digit_val_def valid_date_def days_in_month_def)
  have d2: "resolve_date None today_test = Inr \<lparr>year = 2025, month = 7, day = 1\<rparr>"
    by (simp add: resolve_date_def yesterday_def today_test_def)
  have e1: "WHEELHOUSE_BASE_URL env_unset = None \<or> WHEELHOUSE_BASE_URL env_unset = Some []"
    by (simp add: env_unset_def)
  have e2: "WHEELHOUSE_BASE_URL (env_test\<lparr>WHEELHOUSE_BASE_URL := Some []\<rparr>) = None
      \<or> WHEELHOUSE_BASE_URL (env_test\<lparr>WHEELHOUSE_BASE_URL := Some []\<rparr>) = Some []"
    by simp
  show ?thesis
    using etl_missing_base_url[OF d1 e1, of always_429 world0]
      etl_missing_base_url[OF d2 e2, of always_429 world0]
    by (simp add: world0_def exit_code_def)
qed

text \<open>
  Claim C7 as stated fails when the \<^verbatim>\<open>--date\<close> option is malformed: the date is resolved
  before the base URL is looked at, so the run ends in the usage error, exit code 2.
\<close>

theorem etl_missing_base_url_counterexample:
  "etl (Some ''garbage'') env_unset today_test always_429 world0 =
     (Inl (BadParameter ''Invalid date format: garbage. Use YYYY-MM-DD.''), world0)
   \<and> exit_code (fst (etl (Some ''garbage'') env_unset today_test always_429 world0)) = 2
   \<and> exit_code (fst (etl (Some ''garbage'') env_unset today_test always_429 world0)) \<noteq> 1
   \<and> WHEELHOUSE_BASE_URL env_unset = None"
  by (simp add: etl_def resolve_date_def is_digit_def exit_code_def env_unset_def)

text \<open>
  Claim C6. A run whose listings payload yields no ID echoes that no listings were
  returned and returns normally, exit code 0: the only requests issued are those of the
  listings fetch, and no artifact is written.
\<close>

theorem etl_no_listings:
  assumes "resolve_date date_opt today = Inr target_date"
    and "WHEELHOUSE_BASE_URL env = Some raw_url" and "raw_url \<noteq> []"
    and "get_with_retry srv (rstrip_slash raw_url @ ''/listings'') (Some (auth_headers env)) None
           3 1 w = (Inr listings_json, w1)"
    and "extract_listing_ids listings_json = []"
  shows "etl date_opt env today srv w =
           (Inr (), w1\<lparr>out := out w1 @ [''No listings returned from /listings endpoint.'']\<rparr>)
         \<and> exit_code (fst (etl date_opt env today srv w)) = 0
         \<and> out (snd (etl date_opt env today srv w)) =
             out w @ [''No listings returned from /listings endpoint.'']
         \<and> fs (snd (etl date_opt env today srv w)) = fs w
         \<and> (\<exists>n. reqs (snd (etl date_opt env today srv w)) =
                reqs w @ replicate n (the_request (rstrip_slash raw_url @ ''/listings'')
                                        (Some (auth_headers env)) None))"
proof -
  have run: "etl date_opt env today srv w =
           (Inr (), w1\<lparr>out := out w1 @ [''No listings returned from /listings endpoint.'']\<rparr>)"
    using assms by (simp add: etl_def)
  note frame = get_with_retry_frame[OF assms(4)]
  from frame(4) obtain n where
    n: "reqs w1 = reqs w @ replicate n (the_request (rstrip_slash raw_url @ ''/listings'')
                                        (Some (auth_headers env)) None)"
    by blast
  show ?thesis
    unfolding run using frame(1,2) n by (simp add: exit_code_def)
qed

theorem etl_no_listings_witness:
  "etl (Some ''2025-07-01'') env_test today_test no_listings_api world0 =
     (Inr (),
      world0\<lparr>reqs := [the_request listings_url (Some []) None],
             out := [''No listings returned from /listings endpoint.'']\<rparr>)
   \<and> exit_code (fst (etl (Some ''2025-07-01'') env_test today_test no_listings_api world0)) = 0
   \<and> fs (snd (etl (Some ''2025-07-01'') env_test today_test no_listings_api world0)) = Map.empty"
proof -
  have d: "resolve_date (Some ''2025-07-01'') today_test = Inr \<lparr>year = 2025, month = 7, day = 1\<rparr>"
    by (simp add: resolve_date_def is_digit_def digit_val_def valid_date_def days_in_month_def)
  have u: "WHEELHOUSE_BASE_URL env_test = Some ''http://testserver''"
    by (simp add: env_test_def)
  have ne: "''http://testserver'' \<noteq> []"
    by simp
  have g: "get_with_retry no_listings_api (rstrip_slash ''http://testserver'' @ ''/listings'')
             (Some (auth_headers env_test)) None 3 1 world0 =
           (Inr (JList []), world0\<lparr>reqs := [the_request listings_url (Some []) None]\<rparr>)"
    by (simp add: get_with_retry_def get_loop.simps client_get_def no_listings_api_def resp_def
        raise_for_status_def world0_def rstrip_slash_def auth_headers_def env_test_def
        listings_url_def the_request_def)
  have x: "extract_listing_ids (JList []) = []"
    by (simp add: extract_listing_ids_def)
  show ?thesis
    using etl_no_listings[OF d u ne g x]
    by (simp add: world0_def exit_code_def)
qed

lemma write_metrics_ok:
  assumes "write_succeeds listing_id target_date records w"
  shows "write_metrics listing_id target_date records w =
         (Inr (), wrote_metrics listing_id target_date records w)"
  using assms by (simp add: write_succeeds_def write_metrics_def wrote_metrics_def lib_do_def)

text \<open>
  Claim C8, as amended. When the metrics fetched for a listing yield an empty record list
  and the platform lets the frame be built, the directory be made and the file be
  written, the loop writes a zero-row frame at that listing's output path, replacing
  whatever was written through it before, and goes on with the listings that remain: the
  run returns normally when this listing is the last one, and it exits with code 0
  whenever the remaining listings are processed without error.
\<close>

theorem etl_for_loop_empty_records:
  assumes "get_with_retry srv (metrics_url base_url listing_id) (Some hdrs)
             (Some (metrics_params target_date)) 3 1 w = (Inr metrics_json, w1)"
    and "extract_records metrics_json = []"
    and "write_succeeds listing_id target_date [] w1"
  shows "etl_for_loop srv base_url hdrs target_date (listing_id # rest) w =
           etl_for_loop srv base_url hdrs target_date rest
             (wrote_metrics listing_id target_date [] w1)
         \<and> lib_calls (wrote_metrics listing_id target_date [] w1) =
             lib_calls w1 @ [DataFrame [], Makedirs (out_dir listing_id),
                             ToParquet (out_path listing_id target_date) []]
         \<and> fs (wrote_metrics listing_id target_date [] w1) (out_path listing_id target_date)
             = Some []
         \<and> etl_for_loop srv base_url hdrs target_date [listing_id] w =
             (Inr (), wrote_metrics listing_id target_date [] w1)
         \<and> exit_code (fst (etl_for_loop srv base_url hdrs target_date [listing_id] w)) = 0
         \<and> (fst (etl_for_loop srv base_url hdrs target_date rest
                   (wrote_metrics listing_id target_date [] w1)) = Inr () \<longrightarrow>
              exit_code (fst (etl_for_loop srv base_url hdrs target_date (listing_id # rest) w))
                = 0)"
proof -
  have step: "etl_for_loop srv base_url hdrs target_date (listing_id # rest) w =
           etl_for_loop srv base_url hdrs target_date rest
             (wrote_metrics listing_id target_date [] w1)" for rest
    using assms(1,2) write_metrics_ok[OF assms(3)] by simp
  have here: "lib_calls (wrote_metrics listing_id target_date [] w1) =
             lib_calls w1 @ [DataFrame [], Makedirs (out_dir listing_id),
                             ToParquet (out_path listing_id target_date) []]
         \<and> fs (wrote_metrics listing_id target_date [] w1) (out_path listing_id target_date)
             = Some []"
    by (simp add: wrote_metrics_def)
  show ?thesis
    using step[of rest] step[of "[]"] here by (simp add: exit_code_def)
qed

theorem etl_for_loop_empty_records_witness:
  "etl_for_loop rate_limited_api ''http://testserver'' [] \<lparr>year = 2025, month = 7, day = 1\<rparr>
       [''1'']
       (world0\<lparr>reqs := [the_request listings_url (Some []) None,
                         the_request listings_url (Some []) None], sleeps := [1]\<rparr>) =
     (Inr (),
      wrote_metrics ''1'' \<lparr>year = 2025, month = 7, day = 1\<rparr> []
        (world0\<lparr>reqs := [the_request listings_url (Some []) None,
                         the_request listings_url (Some []) None,
                         the_request ''http://testserver/listings/1/metrics'' (Some [])
                           (Some [(''start_date'', ''2025-07-01''),
                                  (''end_date'', ''2025-07-01'')])],
               sleeps := [1]\<rparr>))
   \<and> fst (etl (Some ''2025-07-01'') env_test today_test rate_limited_api world0) = Inr ()
   \<and> exit_code (fst (etl (Some ''2025-07-01'') env_test today_test rate_limited_api world0)) = 0
   \<and> fs (snd (etl (Some ''2025-07-01'') env_test today_test rate_limited_api world0))
        ''data/raw/1/2025-07-01.parquet'' = Some []
   \<and> lib_calls (snd (etl (Some ''2025-07-01'') env_test today_test rate_limited_api world0)) =
        [DataFrame [], Makedirs ''data/raw/1'', ToParquet ''data/raw/1/2025-07-01.parquet'' []]"
proof -
  let ?d = "\<lparr>year = 2025, month = 7, day = 1\<rparr>"
  let ?w = "world0\<lparr>reqs := [the_request listings_url (Some []) None,
                         the_request listings_url (Some []) None], sleeps := [1]\<rparr>"
  let ?w1 = "world0\<lparr>reqs := [the_request listings_url (Some []) None,
                         the_request listings_url (Some []) None,
                         the_request ''http://testserver/listings/1/metrics'' (Some [])
                           (Some [(''start_date'', ''2025-07-01''),
                                  (''end_date'', ''2025-07-01'')])],
               sleeps := [1]\<rparr>"
  have g: "get_with_retry rate_limited_api (metrics_url ''http://testserver'' ''1'') (Some [])
             (Some (metrics_params ?d)) 3 1 ?w = (Inr (JList []), ?w1)"
    by (simp add: get_with_retry_def get_loop.simps client_get_def rate_limited_api_def resp_def
        raise_for_status_def world0_def listings_url_def the_request_def metrics_url_def
        metrics_params_def date_str_def zfill_def str_nat.simps digit_char_def)
  have x: "extract_records (JList []) = []"
    by (simp add: extract_records_def)
  have ok: "write_succeeds ''1'' ?d [] ?w1"
    by (simp add: write_succeeds_def world0_def)
  have run: "fst (etl (Some ''2025-07-01'') env_test today_test rate_limited_api world0) = Inr ()
    \<and> fs (snd (etl (Some ''2025-07-01'') env_test today_test rate_limited_api world0))
        ''data/raw/1/2025-07-01.parquet'' = Some []
    \<and> lib_calls (snd (etl (Some ''2025-07-01'') env_test today_test rate_limited_api world0)) =
        [DataFrame [], Makedirs ''data/raw/1'', ToParquet ''data/raw/1/2025-07-01.parquet'' []]"
    by (simp add: etl_def resolve_date_def env_test_def
        rstrip_slash_def auth_headers_def get_with_retry_def the_request_def client_get_def
        backoff_sleep_def backoff_delay_def sleep_def sleep_max_def
        raise_for_status_def resp_def listings_url_def world0_def
        extract_listing_ids_def extract_records_def py_str_def str_int_def str_nat.simps
        digit_char_def metrics_url_def metrics_params_def write_metrics_def lib_do_def
        out_path_def out_dir_def path_join_def join2_def date_str_def zfill_def is_digit_def
        digit_val_def valid_date_def days_in_month_def get_loop.simps rate_limited_api_def)
  show ?thesis
    using etl_for_loop_empty_records[OF g x ok, of "[]"] run
    by (simp add: exit_code_def)
qed

text \<open>
  Claim C8 as stated fails in a run of two listings where the first has no records and
  the request for the second is answered with 500: the zero-row artifact of the first
  has been written, and the run ends in the HTTP error, exit code 1.
\<close>

theorem etl_for_loop_empty_records_counterexample:
  "extract_listing_ids (JList [JDict [(''id'', JInt 1)], JDict [(''id'', JInt 2)]]) = [''1'', ''2'']
   \<and> extract_records (JList []) = []
   \<and> fs (snd (etl (Some ''2025-07-01'') env_test today_test second_fails_api world0))
        ''data/raw/1/2025-07-01.parquet'' = Some []
   \<and> fst (etl (Some ''2025-07-01'') env_test today_test second_fails_api world0)
        = Inl (HTTPStatusError 500)
   \<and> exit_code (fst (etl (Some ''2025-07-01'') env_test today_test second_fails_api world0)) = 1"
  by (simp add: etl_def resolve_date_def env_test_def
        rstrip_slash_def auth_headers_def get_with_retry_def the_request_def client_get_def
        backoff_sleep_def backoff_delay_def sleep_def sleep_max_def
        raise_for_status_def resp_def listings_url_def world0_def
        extract_listing_ids_def extract_records_def py_str_def str_int_def str_nat.simps
        digit_char_def metrics_url_def metrics_params_def write_metrics_def lib_do_def
        out_path_def out_dir_def path_join_def join2_def date_str_def zfill_def is_digit_def
        digit_val_def valid_date_def days_in_month_def get_loop.simps second_fails_api_def
        exit_code_def)

text \<open>
  A failure of the file system ends the run as well. With the listings 1 and
  \<^verbatim>\<open>1/2025-07-01.parquet\<close>, both without records, the artifact of the first is where the
  directory of the second would have to be: the run ends in \<^verbatim>\<open>FileExistsError\<close>, exit
  code 1, after one write.
\<close>

lemma etl_colliding_ids:
  "fst (etl (Some ''2025-07-01'') env_test today_test colliding_ids_api
         (world0\<lparr>lib_outcome := file_in_the_way\<rparr>)) = Inl FileExistsError
   \<and> exit_code (fst (etl (Some ''2025-07-01'') env_test today_test colliding_ids_api
         (world0\<lparr>lib_outcome := file_in_the_way\<rparr>))) = 1
   \<and> lib_calls (snd (etl (Some ''2025-07-01'') env_test today_test colliding_ids_api
         (world0\<lparr>lib_outcome := file_in_the_way\<rparr>))) =
        [DataFrame [], Makedirs ''data/raw/1'', ToParquet ''data/raw/1/2025-07-01.parquet'' [],
         DataFrame [], Makedirs ''data/raw/1/2025-07-01.parquet'']"
  by (simp add: etl_def resolve_date_def env_test_def
        rstrip_slash_def auth_headers_def get_with_retry_def the_request_def client_get_def
        backoff_sleep_def backoff_delay_def sleep_def sleep_max_def
        raise_for_status_def resp_def listings_url_def world0_def
        extract_listing_ids_def extract_records_def py_str_def str_int_def str_nat.simps
        digit_char_def metrics_url_def metrics_params_def write_metrics_def lib_do_def
        out_path_def out_dir_def path_join_def join2_def date_str_def zfill_def is_digit_def
        digit_val_def valid_date_def days_in_month_def get_loop.simps colliding_ids_api_def
        file_in_the_way_def exit_code_def)

lemma digit_char_not_sep:
  assumes "n < 10"
  shows "digit_char n \<noteq> CHR ''/''"
proof -
  have "digit_char n \<in> set ''0123456789''"
    unfolding digit_char_def using assms by (intro nth_mem) simp
  then show ?thesis
    by auto
qed

lemma str_nat_hd:
  "str_nat n \<noteq> [] \<and> hd (str_nat n) \<noteq> CHR ''/''"
proof (induction n rule: str_nat.induct)
  case (1 n)
  show ?case
  proof (cases "n < 10")
    case True
    then show ?thesis
      by (subst (1 2) str_nat.simps) (simp add: digit_char_not_sep)
  next
    case False
    with "1.IH" show ?thesis
      by (subst (1 2) str_nat.simps) simp
  qed
qed

lemma zfill_hd:
  assumes "s \<noteq> []" and "hd s \<noteq> CHR ''/''"
  shows "zfill k s \<noteq> [] \<and> hd (zfill k s) \<noteq> CHR ''/''"
  using assms by (cases "k - length s") (simp_all add: zfill_def)

lemma date_str_hd:
  "date_str d \<noteq> [] \<and> hd (date_str d) \<noteq> CHR ''/''"
  using zfill_hd[of "str_nat (year d)" 4] str_nat_hd[of "year d"]
  by (simp add: date_str_def)

text \<open>
  The layout \<^verbatim>\<open>data/raw/{listing_id}/{YYYY-MM-DD}.parquet\<close> holds for an ID that is not
  empty and neither starts nor ends with the separator.
\<close>

lemma out_path_layout:
  assumes "listing_id \<noteq> []" and "hd listing_id \<noteq> CHR ''/''" and "last listing_id \<noteq> CHR ''/''"
  shows "out_path listing_id d = ''data/raw/'' @ listing_id @ ''/'' @ date_str d @ ''.parquet''"
proof -
  have dir: "out_dir listing_id = ''data/raw/'' @ listing_id"
    using assms(1,2) by (simp add: out_dir_def path_join_def join2_def)
  have l: "last (''data/raw/'' @ listing_id) \<noteq> CHR ''/''"
    using assms(1,3) by simp
  have f: "date_str d @ ''.parquet'' \<noteq> [] \<and> hd (date_str d @ ''.parquet'') \<noteq> CHR ''/''"
    using date_str_hd[of d] by simp
  show ?thesis
    unfolding out_path_def dir path_join_def
    using l f by (simp add: join2_def)
qed

text \<open>
  Writing twice through one path leaves the rows written last, and nothing of the first.
\<close>

lemma write_metrics_overwrites:
  "fs (wrote_metrics listing_id d records2 (wrote_metrics listing_id d records1 w)) =
     (fs w)(out_path listing_id d \<mapsto> records2)"
  by (simp add: wrote_metrics_def)

text \<open>
  Claim C5 at the listing ID \<^verbatim>\<open>/x\<close>: \<^verbatim>\<open>os.path.join\<close> drops \<^verbatim>\<open>data/raw\<close> before a
  component that starts with the separator, so the run writes the artifact at
  \<^verbatim>\<open>/x/2025-07-01.parquet\<close> and nothing under \<^verbatim>\<open>data/raw\<close>.
\<close>

theorem out_path_absolute_listing_id:
  "extract_listing_ids (JList [JStr ''/x'']) = [''/x'']
   \<and> out_path ''/x'' \<lparr>year = 2025, month = 7, day = 1\<rparr> = ''/x/2025-07-01.parquet''
   \<and> out_path ''/x'' \<lparr>year = 2025, month = 7, day = 1\<rparr>
       \<noteq> ''data/raw/'' @ ''/x'' @ ''/'' @ ''2025-07-01'' @ ''.parquet''
   \<and> fst (etl (Some ''2025-07-01'') env_test today_test absolute_id_api world0) = Inr ()
   \<and> fs (snd (etl (Some ''2025-07-01'') env_test today_test absolute_id_api world0))
        ''/x/2025-07-01.parquet'' = Some [JDict [(''value'', JInt 1)]]
   \<and> fs (snd (etl (Some ''2025-07-01'') env_test today_test absolute_id_api world0))
        ''data/raw//x/2025-07-01.parquet'' = None"
  by (simp add: etl_def resolve_date_def env_test_def
        rstrip_slash_def auth_headers_def get_with_retry_def the_request_def client_get_def
        sleep_def raise_for_status_def resp_def listings_url_def world0_def
        extract_listing_ids_def extract_records_def py_str_def str_int_def str_nat.simps
        digit_char_def metrics_url_def metrics_params_def write_metrics_def lib_do_def
        out_path_def out_dir_def path_join_def join2_def date_str_def zfill_def is_digit_def
        digit_val_def valid_date_def days_in_month_def get_loop.simps absolute_id_api_def)

end

